theory Spec2Isabelle
  imports Main "HOL-Library.Word"
begin

section \<open>JavaScript values used by the pages\<close>

text \<open>
  A string of the pages is a list of code units; a \<^typ>\<open>char\<close> stands for a code unit
  below 256. Strings whose code units are larger are outside this development.

  A value that was thrown is one of three: an \<open>Error\<close> instance, of which only
  the \<open>message\<close> is read by the pages; an object that is no \<open>Error\<close> instance but
  has a \<open>message\<close> member, as the rejection \<open>{ code, message }\<close> of a wallet
  provider, carried as the rendering of that member in a template and as its own
  \<open>String(...)\<close> rendering; or any other value, which has no such member, carried as
  its \<open>String(...)\<close> rendering (\<open>null\<close> and \<open>undefined\<close>, of which no member can be
  read, are not considered).
  An awaited call settles as \<open>Inr\<close> of its value or \<open>Inl\<close> of what it threw.
\<close>

datatype thrown = ErrorObj string | MessageObj string string | NonError string

text \<open>\<open>`${err.message}`\<close>: a member that is missing reads as \<open>undefined\<close>.\<close>

definition err_message :: "thrown \<Rightarrow> string" where
  "err_message err =
     (case err of
        ErrorObj m \<Rightarrow> m
      | MessageObj m rendering \<Rightarrow> m
      | NonError rendering \<Rightarrow> ''undefined'')"

text \<open>\<open>err instanceof Error ? err.message : String(err)\<close>\<close>

definition err_text :: "thrown \<Rightarrow> string" where
  "err_text err =
     (case err of
        ErrorObj m \<Rightarrow> m
      | MessageObj m rendering \<Rightarrow> rendering
      | NonError rendering \<Rightarrow> rendering)"

section \<open>Signer adapters\<close>

subsection \<open>Messages and their hexadecimal encoding\<close>

text \<open>
  viem's \<open>SignableMessage\<close> is \<open>string | { raw: Hex | ByteArray }\<close>: a message is a
  plain string or a wrapper whose \<open>raw\<close> member is a hex string or a byte array.
  The last branch of Privy's \<open>signMessage\<close> (\<open>String(message)\<close>) is taken by no value
  of that type.
\<close>

datatype raw_message = RawHex string | RawBytes "8 word list"

datatype signable_message = Text string | Raw raw_message

text \<open>\<open>Buffer.from(raw).toString('hex')\<close>: two lower-case digits per byte.\<close>

definition hex_digit :: "nat \<Rightarrow> char" where
  "hex_digit d = ''0123456789abcdef'' ! (d mod 16)"

definition hex_of_byte :: "8 word \<Rightarrow> string" where
  "hex_of_byte b = [hex_digit (unat b div 16), hex_digit (unat b mod 16)]"

definition buffer_toString_hex :: "8 word list \<Rightarrow> string" where
  "buffer_toString_hex bs = concat (map hex_of_byte bs)"

text \<open>The inverse reading of a hexadecimal text, used to state that nothing is lost.\<close>

definition hex_value :: "char \<Rightarrow> nat" where
  "hex_value c =
     (let n = (of_char c :: nat)
      in if 48 \<le> n \<and> n \<le> 57 then n - 48
         else if 97 \<le> n \<and> n \<le> 102 then n - 87
         else 0)"

fun bytes_of_hex :: "string \<Rightarrow> 8 word list" where
  "bytes_of_hex (h # l # cs) = of_nat (hex_value h * 16 + hex_value l) # bytes_of_hex cs"
| "bytes_of_hex _ = []"

subsection \<open>Privy: an EIP-1193 provider\<close>

text \<open>
  \<open>provider.request({ method, params })\<close>; the member \<open>method\<close> is \<open>rpc_method\<close>
  here. The adapter calls nothing else of the provider. \<open>session_address\<close> is the
  account the provider's session is authenticated for at the time of the call; the
  adapter has no access to it.
\<close>

record rpc_request =
  rpc_method :: string
  params :: "string list"

record eip1193_provider =
  session_address :: string
  request :: "rpc_request \<Rightarrow> thrown + string"

text \<open>PrivyExample.tsx, \<open>signMessage\<close>: the text handed to \<open>personal_sign\<close>.\<close>

definition messageToSign :: "signable_message \<Rightarrow> string" where
  "messageToSign message =
     (case message of
        Text s \<Rightarrow> s
      | Raw raw \<Rightarrow>
          (case raw of
             RawHex h \<Rightarrow> h
           | RawBytes bs \<Rightarrow> ''0x'' @ buffer_toString_hex bs))"

definition privy_signMessage_request :: "string \<Rightarrow> signable_message \<Rightarrow> rpc_request" where
  "privy_signMessage_request address message =
     \<lparr>rpc_method = ''personal_sign'', params = [messageToSign message, address]\<rparr>"

definition privy_signMessage ::
  "eip1193_provider \<Rightarrow> string \<Rightarrow> signable_message \<Rightarrow> thrown + string" where
  "privy_signMessage provider address message =
     request provider (privy_signMessage_request address message)"

subsection \<open>Typed data and its JSON text\<close>

text \<open>
  The typed-data definition handed to \<open>signTypedData\<close> is a tree of plain values.
  A member whose value is \<open>undefined\<close> is left out by \<open>JSON.stringify\<close>, so such
  members are taken as absent; an object is the list of its members in the order in
  which they are enumerated. \<open>'n\<close> is the type of JavaScript numbers; their rendering
  \<open>num\<close> (the text of a finite number, \<open>null\<close> otherwise) is a parameter.
\<close>

datatype 'n js_value =
    JNull
  | JBool bool
  | JNumber 'n
  | JString string
  | JBigInt int
  | JArray "'n js_value list"
  | JObject "(string \<times> 'n js_value) list"

text \<open>\<open>BigInt.prototype.toString()\<close>: the decimal digits, after a minus sign if negative.\<close>

definition digit_char :: "nat \<Rightarrow> char" where
  "digit_char d = char_of (48 + d)"

fun decimal_digits :: "nat \<Rightarrow> string" where
  "decimal_digits n =
     (if n < 10 then [digit_char n] else decimal_digits (n div 10) @ [digit_char (n mod 10)])"

definition bigint_toString :: "int \<Rightarrow> string" where
  "bigint_toString n =
     (if n < 0 then CHR ''-'' # decimal_digits (nat (- n)) else decimal_digits (nat n))"

text \<open>Reading a decimal text back, used to state that no precision is lost.\<close>

definition digit_value :: "char \<Rightarrow> nat" where
  "digit_value c = of_char c - 48"

definition decimal_nat :: "string \<Rightarrow> nat" where
  "decimal_nat cs = foldl (\<lambda>acc c. acc * 10 + digit_value c) 0 cs"

definition decimal_value :: "string \<Rightarrow> int" where
  "decimal_value s =
     (case s of
        [] \<Rightarrow> 0
      | c # cs \<Rightarrow> if c = CHR ''-'' then - int (decimal_nat cs) else int (decimal_nat s))"

text \<open>
  PrivyExample.tsx, \<open>signTypedData\<close>:
  \<open>(_key, value) => typeof value === 'bigint' ? value.toString() : value\<close>
\<close>

definition replacer :: "string \<Rightarrow> 'n js_value \<Rightarrow> 'n js_value" where
  "replacer key v = (case v of JBigInt n \<Rightarrow> JString (bigint_toString n) | _ \<Rightarrow> v)"

text \<open>\<open>QuoteJSONString\<close> of the language: the escapes of a string member.\<close>

definition quote_char :: "char \<Rightarrow> string" where
  "quote_char c =
     (let n = (of_char c :: nat)
      in if n = 8 then [CHR 0x5C, CHR ''b'']
         else if n = 9 then [CHR 0x5C, CHR ''t'']
         else if n = 10 then [CHR 0x5C, CHR ''n'']
         else if n = 12 then [CHR 0x5C, CHR ''f'']
         else if n = 13 then [CHR 0x5C, CHR ''r'']
         else if n = 34 then [CHR 0x5C, CHR 0x22]
         else if n = 92 then [CHR 0x5C, CHR 0x5C]
         else if n < 32 then [CHR 0x5C, CHR ''u'', CHR ''0'', CHR ''0'',
                              hex_digit (n div 16), hex_digit (n mod 16)]
         else [c])"

definition QuoteJSONString :: "string \<Rightarrow> string" where
  "QuoteJSONString s = [CHR 0x22] @ concat (map quote_char s) @ [CHR 0x22]"

fun join :: "string \<Rightarrow> string list \<Rightarrow> string" where
  "join sep [] = []"
| "join sep [x] = x"
| "join sep (x # y # ys) = x @ sep @ join sep (y # ys)"

text \<open>The parts of an array or object are serialized in order; the first throw ends it.\<close>

fun collect :: "(thrown + 'a) list \<Rightarrow> thrown + 'a list" where
  "collect [] = Inr []"
| "collect (x # xs) =
     (case x of
        Inl e \<Rightarrow> Inl e
      | Inr v \<Rightarrow> (case collect xs of Inl e \<Rightarrow> Inl e | Inr vs \<Rightarrow> Inr (v # vs)))"

definition bigint_type_error :: thrown where
  "bigint_type_error = ErrorObj ''Do not know how to serialize a BigInt''"

text \<open>
  \<open>SerializeJSONProperty\<close> of the language, without indentation. \<open>use_replacer\<close> says
  whether \<open>JSON.stringify\<close> was given the \<open>replacer\<close> above: it is then applied to
  every value, under its key, before the value is serialized. A BigInt that reaches
  the serializer throws a \<open>TypeError\<close>.
\<close>

function SerializeJSONProperty ::
  "bool \<Rightarrow> ('n \<Rightarrow> string) \<Rightarrow> string \<Rightarrow> 'n js_value \<Rightarrow> thrown + string" where
  "SerializeJSONProperty use_replacer num key v =
     (case (if use_replacer then replacer key v else v) of
        JNull \<Rightarrow> Inr ''null''
      | JBool b \<Rightarrow> Inr (if b then ''true'' else ''false'')
      | JNumber x \<Rightarrow> Inr (num x)
      | JString s \<Rightarrow> Inr (QuoteJSONString s)
      | JBigInt n \<Rightarrow> Inl bigint_type_error
      | JArray xs \<Rightarrow>
          (case collect (map (\<lambda>(i, x). SerializeJSONProperty use_replacer num (decimal_digits i) x)
                             (enumerate 0 xs)) of
             Inl e \<Rightarrow> Inl e
           | Inr parts \<Rightarrow> Inr (''['' @ join '','' parts @ '']''))
      | JObject kvs \<Rightarrow>
          (case collect (map (\<lambda>(k, x).
                                 case SerializeJSONProperty use_replacer num k x of
                                   Inl e \<Rightarrow> Inl e
                                 | Inr t \<Rightarrow> Inr (QuoteJSONString k @ '':'' @ t))
                             kvs) of
             Inl e \<Rightarrow> Inl e
           | Inr parts \<Rightarrow> Inr (''{'' @ join '','' parts @ ''}'')))"
  by pat_completeness auto
termination
proof (relation "measure (\<lambda>(use_replacer, num, key, v). size v)", goal_cases)
  case 1
  show ?case by simp
next
  case (2 use_replacer num key v xs ix i x)
  from 2(1) have v: "v = JArray xs"
    by (cases v) (simp_all add: replacer_def split: if_splits)
  from 2(2,3) have "x \<in> set xs"
    by (auto simp: in_set_enumerate_eq)
  then have "size x < Suc (size_list size xs)"
    by (induction xs) auto
  with v show ?case by simp
next
  case (3 use_replacer num key v kvs kx k x)
  from 3(1) have v: "v = JObject kvs"
    by (cases v) (simp_all add: replacer_def split: if_splits)
  from 3(2,3) have "(k, x) \<in> set kvs"
    by simp
  then have "size x < Suc (size_list (size_prod (\<lambda>_. 0) size) kvs)"
    by (induction kvs) auto
  with v show ?case by simp
qed

text \<open>\<open>JSON.stringify(value)\<close> and \<open>JSON.stringify(value, replacer)\<close>: the root has key \<open>""\<close>.\<close>

definition JSON_stringify :: "bool \<Rightarrow> ('n \<Rightarrow> string) \<Rightarrow> 'n js_value \<Rightarrow> thrown + string" where
  "JSON_stringify use_replacer num v = SerializeJSONProperty use_replacer num [] v"

text \<open>
  The payload the serialization is compared with: the same tree with every BigInt
  replaced by the string of its decimal digits.
\<close>

fun bigints_as_strings :: "'n js_value \<Rightarrow> 'n js_value" where
  "bigints_as_strings (JBigInt n) = JString (bigint_toString n)"
| "bigints_as_strings (JArray xs) = JArray (map bigints_as_strings xs)"
| "bigints_as_strings (JObject kvs) = JObject (map (\<lambda>(k, v). (k, bigints_as_strings v)) kvs)"
| "bigints_as_strings v = v"

text \<open>
  The JSON text of a payload whose BigInts are written as the strings of their decimal
  digits, given in closed form: what the serialization with the replacer is compared
  with.
\<close>

fun json_text :: "('n \<Rightarrow> string) \<Rightarrow> 'n js_value \<Rightarrow> string" where
  "json_text num JNull = ''null''"
| "json_text num (JBool b) = (if b then ''true'' else ''false'')"
| "json_text num (JNumber x) = num x"
| "json_text num (JString t) = QuoteJSONString t"
| "json_text num (JBigInt n) = [CHR 0x22] @ bigint_toString n @ [CHR 0x22]"
| "json_text num (JArray xs) = ''['' @ join '','' (map (json_text num) xs) @ '']''"
| "json_text num (JObject kvs) =
     ''{'' @ join '','' (map (\<lambda>(k, v). QuoteJSONString k @ '':'' @ json_text num v) kvs) @ ''}''"

text \<open>PrivyExample.tsx, \<open>signTypedData\<close>: the request handed to the provider.\<close>

definition privy_signTypedData_request ::
  "('n \<Rightarrow> string) \<Rightarrow> string \<Rightarrow> 'n js_value \<Rightarrow> thrown + rpc_request" where
  "privy_signTypedData_request num address typedData =
     (case JSON_stringify True num typedData of
        Inl e \<Rightarrow> Inl e
      | Inr json \<Rightarrow> Inr \<lparr>rpc_method = ''eth_signTypedData_v4'', params = [address, json]\<rparr>)"

definition privy_signTypedData ::
  "eip1193_provider \<Rightarrow> ('n \<Rightarrow> string) \<Rightarrow> string \<Rightarrow> 'n js_value \<Rightarrow> thrown + string" where
  "privy_signTypedData provider num address typedData =
     (case privy_signTypedData_request num address typedData of
        Inl e \<Rightarrow> Inl e
      | Inr r \<Rightarrow> request provider r)"

subsection \<open>Dynamic: a viem wallet client\<close>

text \<open>
  The Dynamic adapter hands each call to the wallet client it got from the SDK, under
  the wallet client's own \<open>account\<close> (the non-null assertion \<open>account!\<close> checks
  nothing when the page runs). The message and the typed data are passed as they are.
  \<open>client_session_address\<close> is the account the SDK's session is authenticated for at
  the time of the call; the adapter has no access to it.
\<close>

datatype 'td wallet_call =
    SignMessage "string option" signable_message
  | SignTypedData "string option" 'td

record 'td wallet_client =
  wc_account :: "string option"
  client_session_address :: string
  perform :: "'td wallet_call \<Rightarrow> thrown + string"

definition dynamic_signMessage_call ::
  "'td wallet_client \<Rightarrow> signable_message \<Rightarrow> 'td wallet_call" where
  "dynamic_signMessage_call walletClient message = SignMessage (wc_account walletClient) message"

definition dynamic_signMessage ::
  "'td wallet_client \<Rightarrow> string \<Rightarrow> signable_message \<Rightarrow> thrown + string" where
  "dynamic_signMessage walletClient address message =
     perform walletClient (dynamic_signMessage_call walletClient message)"

definition dynamic_signTypedData ::
  "'td wallet_client \<Rightarrow> string \<Rightarrow> 'td \<Rightarrow> thrown + string" where
  "dynamic_signTypedData walletClient address typedData =
     perform walletClient (SignTypedData (wc_account walletClient) typedData)"

subsection \<open>Transaction signing\<close>

text \<open>
  \<open>signTransaction\<close> of the Privy and of the Dynamic adapter: the body is a single
  \<open>throw new Error(...)\<close>, whatever the arguments.
\<close>

definition unsupported_message :: string where
  "unsupported_message = ''signTransaction not supported - use MEE for transactions''"

definition privy_signTransaction :: "'tx \<Rightarrow> thrown + string" where
  "privy_signTransaction tx = Inl (ErrorObj unsupported_message)"

definition dynamic_signTransaction :: "'tx \<Rightarrow> thrown + string" where
  "dynamic_signTransaction tx = Inl (ErrorObj unsupported_message)"

subsection \<open>A session that has moved to another account\<close>

text \<open>
  The adapter was built while the wallet had the address \<open>0xA\<close>. The provider, and
  the wallet client, are now authenticated for \<open>0xB\<close> and answer every request with
  a signature made for \<open>0xB\<close>.
\<close>

definition moved_provider :: eip1193_provider where
  "moved_provider = \<lparr>session_address = ''0xB'', request = (\<lambda>r. Inr ''signature of 0xB'')\<rparr>"

definition moved_wallet_client :: "'td wallet_client" where
  "moved_wallet_client =
     \<lparr>wc_account = Some ''0xB'', client_session_address = ''0xB'',
      perform = (\<lambda>c. Inr ''signature of 0xB'')\<rparr>"

section \<open>Pages\<close>

text \<open>
  The three provider pages (PrivyExample.tsx, ParaExample.tsx, DynamicExample.tsx) keep
  the same React state. A handler is run to its end on the state it starts from; what
  the world outside the page answers to each awaited call is given by an
  \<open>environment\<close>, and what the React hooks return by \<open>hooks\<close>. Two handlers
  interleaving at an \<open>await\<close> are outside this development.
\<close>

subsection \<open>State, console and outside calls\<close>

text \<open>
  The signer handed to the account factory: the adapter that \<open>toAccount\<close> builds on
  the Privy and on the Dynamic page, with the checksummed address it captured, or the
  account that \<open>createParaAccount\<close> returned. The account, the client, an instruction
  and a quote are made outside the pages, which only pass them on.
\<close>

datatype signer = PrivySigner string | DynamicSigner string | ParaAccount nat

datatype account_handle = AccountHandle nat

datatype client_handle = ClientHandle nat

datatype instruction = Instruction nat

datatype quote = Quote nat

record composable_call =
  cc_chainId :: nat
  cc_to :: string
  cc_functionName :: string
  cc_recipient :: string
  cc_amount :: int

record quote_request =
  instructions :: "instruction list"
  trigger_chainId :: nat
  trigger_tokenAddress :: string
  trigger_amount :: int
  feeToken_address :: string
  feeToken_chainId :: nat
  simulate :: bool

text \<open>The calls that leave the page, in the order in which they were made.\<close>

datatype external_call =
    SwitchChain nat
  | ToMultichainNexusAccount signer
  | CreateMeeClient account_handle
  | Fetch string
  | BuildComposable composable_call
  | GetFusionQuote quote_request
  | ExecuteFusionQuote quote
  | WaitForSupertransactionReceipt string

datatype console_arg = Txt string | Thrown thrown

datatype console_entry = ConsoleLog "console_arg list" | ConsoleError "console_arg list"

text \<open>
  An entry of the \<open>recipients\<close> array: a string, or \<open>undefined\<close>, or a hole (an index
  below the length that holds no element) as an assignment beyond the end leaves them.
\<close>

datatype slot = Hole | Undefined | Str string

text \<open>
  The React state of a page, and with it what the page has written to the console and
  the calls it has made.
\<close>

record page =
  status :: "string option"
  recipients :: "slot list"
  balance :: "int option"
  meeScanLink :: "string option"
  meeClient :: "client_handle option"
  orchestrator :: "account_handle option"
  console :: "console_entry list"
  calls :: "external_call list"

text \<open>
  How each awaited call settles during one run of a handler. \<open>switchChain\<close> is the
  wallet's \<open>switchChain\<close> or \<open>switchNetwork\<close>, \<open>getTransport\<close> its
  \<open>getEthereumProvider\<close> or \<open>getWalletClient\<close>, and \<open>getAddress\<close> viem's
  checksum, which throws on a text that is no address. The builds of a transfer are
  started together: \<open>buildSettledAt\<close> is the time at which each of them settles.
\<close>

record environment =
  switchChain :: "thrown + unit"
  getTransport :: "thrown + unit"
  getAddress :: "string \<Rightarrow> thrown + string"
  createParaAccount :: "thrown + signer"
  toMultichainNexusAccount :: "signer \<Rightarrow> thrown + account_handle"
  createMeeClient :: "account_handle \<Rightarrow> thrown + client_handle"
  buildComposable :: "composable_call \<Rightarrow> thrown + instruction"
  buildSettledAt :: "composable_call \<Rightarrow> nat"
  getFusionQuote :: "quote_request \<Rightarrow> thrown + quote"
  executeFusionQuote :: "quote \<Rightarrow> thrown + string"
  getMeeScanLink :: "string \<Rightarrow> thrown + string"
  waitForSupertransactionReceipt :: "string \<Rightarrow> thrown + unit"

text \<open>
  \<open>wallet\<close> is the address of the wallet object the hook returns, \<open>None\<close> when there
  is no wallet object.
\<close>

record hooks =
  wallet :: "string option"
  isConnected :: bool
  isEthereumWallet :: bool

text \<open>\<open>!x\<close> for an optional string: \<open>undefined\<close> and the empty string are falsy.\<close>

definition falsy :: "string option \<Rightarrow> bool" where
  "falsy x = (case x of None \<Rightarrow> True | Some t \<Rightarrow> t = [])"

definition USDC_ADDRESS :: string where
  "USDC_ADDRESS = ''0x833589fCD6eDb6E08f4c7C32D4f71b54bdA02913''"

definition TRANSFER_AMOUNT :: int where
  "TRANSFER_AMOUNT = 100000"

definition base_id :: nat where
  "base_id = 8453"

definition setStatus :: "string \<Rightarrow> page \<Rightarrow> page" where
  "setStatus t s = s\<lparr>status := Some t\<rparr>"

definition console_log :: "console_arg list \<Rightarrow> page \<Rightarrow> page" where
  "console_log args s = s\<lparr>console := console s @ [ConsoleLog args]\<rparr>"

definition console_error :: "console_arg list \<Rightarrow> page \<Rightarrow> page" where
  "console_error args s = s\<lparr>console := console s @ [ConsoleError args]\<rparr>"

definition called :: "external_call \<Rightarrow> page \<Rightarrow> page" where
  "called c s = s\<lparr>calls := calls s @ [c]\<rparr>"

subsection \<open>Recipients\<close>

text \<open>\<open>[...recipients]\<close>: the copy reads every index, so a hole becomes \<open>undefined\<close>.\<close>

definition spread :: "slot list \<Rightarrow> slot list" where
  "spread xs = map (\<lambda>e. case e of Hole \<Rightarrow> Undefined | _ \<Rightarrow> e) xs"

definition initial_recipients :: "slot list" where
  "initial_recipients = [Str []]"

text \<open>
  \<open>newRecipients[index] = value\<close>: an index at or beyond the length extends the array,
  leaving holes below it.
\<close>

definition handleRecipientChange :: "nat \<Rightarrow> string \<Rightarrow> slot list \<Rightarrow> slot list" where
  "handleRecipientChange index v rs =
     (let newRecipients = spread rs
      in if index < length newRecipients then newRecipients[index := Str v]
         else newRecipients @ replicate (index - length newRecipients) Hole @ [Str v])"

definition addRecipient :: "slot list \<Rightarrow> slot list" where
  "addRecipient rs = spread rs @ [Str []]"

text \<open>\<open>recipients.filter((_, i) => i !== index)\<close>: \<open>filter\<close> does not visit holes.\<close>

definition removeRecipient :: "nat \<Rightarrow> slot list \<Rightarrow> slot list" where
  "removeRecipient index rs =
     (if length rs > 1
      then map snd (filter (\<lambda>(i, e). e \<noteq> Hole \<and> i \<noteq> index) (enumerate 0 rs))
      else rs)"

text \<open>
  The edits a page offers: typing into the row of an index, the button that adds a
  row, and the button that removes the row of an index.
\<close>

datatype recipient_event = Change nat string | Add | Remove nat

fun recipient_step :: "slot list \<Rightarrow> recipient_event \<Rightarrow> slot list" where
  "recipient_step rs (Change index v) = handleRecipientChange index v rs"
| "recipient_step rs Add = addRecipient rs"
| "recipient_step rs (Remove index) = removeRecipient index rs"

definition recipients_after :: "recipient_event list \<Rightarrow> slot list" where
  "recipients_after events = foldl recipient_step initial_recipients events"

text \<open>
  The entries that are no holes, and what every step keeps true of the array: it has
  such an entry, and two of them if it is longer than one.
\<close>

definition present :: "slot list \<Rightarrow> slot list" where
  "present rs = filter (\<lambda>e. e \<noteq> Hole) rs"

definition kept :: "slot list \<Rightarrow> bool" where
  "kept rs = (1 \<le> length (present rs) \<and> (1 < length rs \<longrightarrow> 2 \<le> length (present rs)))"

text \<open>\<open>String.prototype.trim\<close> on code units below 256.\<close>

definition is_whitespace :: "char \<Rightarrow> bool" where
  "is_whitespace c = ((of_char c :: nat) \<in> {9, 10, 11, 12, 13, 32, 160})"

definition trim :: "string \<Rightarrow> string" where
  "trim t = rev (dropWhile is_whitespace (rev (dropWhile is_whitespace t)))"

definition trim_type_error :: thrown where
  "trim_type_error = ErrorObj ''Cannot read properties of undefined (reading 'trim')''"

text \<open>\<open>recipients.filter((r) => r.trim().length > 0)\<close>\<close>

fun validRecipients :: "slot list \<Rightarrow> thrown + string list" where
  "validRecipients [] = Inr []"
| "validRecipients (Hole # rs) = validRecipients rs"
| "validRecipients (Undefined # rs) = Inl trim_type_error"
| "validRecipients (Str r # rs) =
     (case validRecipients rs of
        Inl e \<Rightarrow> Inl e
      | Inr valid \<Rightarrow> Inr (if length (trim r) > 0 then r # valid else valid))"

subsection \<open>Initialization of the account and of the client\<close>

text \<open>
  The end of the \<open>try\<close> block of every \<open>initMee\<close>: the account factory, then the
  client factory. The result is the state reached and what was thrown, if anything.
\<close>

definition create_account_and_client ::
  "environment \<Rightarrow> string \<Rightarrow> signer \<Rightarrow> page \<Rightarrow> page \<times> thrown option" where
  "create_account_and_client env tag the_signer s0 =
     (let s1 = called (ToMultichainNexusAccount the_signer) s0
      in case toMultichainNexusAccount env the_signer of
           Inl e \<Rightarrow> (s1, Some e)
         | Inr multiAccount \<Rightarrow>
             (let s2 = s1\<lparr>orchestrator := Some multiAccount\<rparr>;
                  s3 = called (CreateMeeClient multiAccount) s2
              in case createMeeClient env multiAccount of
                   Inl e \<Rightarrow> (s3, Some e)
                 | Inr mee \<Rightarrow>
                     (console_log [Txt (tag @ '' MEE Client initialized with Fusion mode'')]
                        (s3\<lparr>meeClient := Some mee\<rparr>), None)))"

definition privy_init_try :: "environment \<Rightarrow> string \<Rightarrow> page \<Rightarrow> page \<times> thrown option" where
  "privy_init_try env walletAddress s0 =
     (let s1 = console_log [Txt ''[Privy] Initializing Biconomy MEE with Fusion mode...''] s0;
          s2 = called (SwitchChain base_id) s1
      in case switchChain env of
           Inl e \<Rightarrow> (s2, Some e)
         | Inr _ \<Rightarrow>
             (case getTransport env of
                Inl e \<Rightarrow> (s2, Some e)
              | Inr _ \<Rightarrow>
                  (case getAddress env walletAddress of
                     Inl e \<Rightarrow> (s2, Some e)
                   | Inr address \<Rightarrow>
                       create_account_and_client env ''[Privy]'' (PrivySigner address)
                         (console_log [Txt ''[Privy] Wallet address:'', Txt address] s2))))"

definition privy_initMee :: "environment \<Rightarrow> hooks \<Rightarrow> page \<Rightarrow> page" where
  "privy_initMee env h s =
     (case wallet h of
        None \<Rightarrow> s
      | Some walletAddress \<Rightarrow>
          if walletAddress = [] then s
          else if meeClient s \<noteq> None then s
          else (case privy_init_try env walletAddress s of
                  (s', None) \<Rightarrow> s'
                | (s', Some err) \<Rightarrow>
                    console_error [Txt ''[Privy] Failed to initialize MEE:'', Thrown err] s'))"

definition para_init_try :: "environment \<Rightarrow> string \<Rightarrow> page \<Rightarrow> page \<times> thrown option" where
  "para_init_try env walletAddress s0 =
     (let s1 = console_log [Txt ''[Para] Initializing Biconomy MEE with Fusion mode...''] s0;
          s2 = console_log [Txt ''[Para] Wallet address:'', Txt walletAddress] s1
      in case createParaAccount env of
           Inl e \<Rightarrow> (s2, Some e)
         | Inr viemParaAccount \<Rightarrow>
             create_account_and_client env ''[Para]'' viemParaAccount
               (console_log [Txt ''[Para] Created Para viem account''] s2))"

definition para_initMee :: "environment \<Rightarrow> hooks \<Rightarrow> page \<Rightarrow> page" where
  "para_initMee env h s =
     (case wallet h of
        None \<Rightarrow> s
      | Some walletAddress \<Rightarrow>
          if walletAddress = [] \<or> \<not> isConnected h then s
          else if meeClient s \<noteq> None then s
          else (case para_init_try env walletAddress s of
                  (s', None) \<Rightarrow> s'
                | (s', Some err) \<Rightarrow>
                    setStatus (''Error initializing MEE: '' @ err_text err)
                      (console_error [Txt ''[Para] Failed to initialize MEE:'', Thrown err] s')))"

definition dynamic_init_try :: "environment \<Rightarrow> string \<Rightarrow> page \<Rightarrow> page \<times> thrown option" where
  "dynamic_init_try env walletAddress s0 =
     (let s1 = console_log [Txt ''[Dynamic] Initializing Biconomy MEE with Fusion mode...''] s0;
          s2 = called (SwitchChain base_id) s1;
          s3 = (case switchChain env of
                  Inl switchErr \<Rightarrow>
                    console_log [Txt ''[Dynamic] Network switch skipped:'', Thrown switchErr] s2
                | Inr _ \<Rightarrow> console_log [Txt ''[Dynamic] Switched to Base network''] s2)
      in case getTransport env of
           Inl e \<Rightarrow> (s3, Some e)
         | Inr _ \<Rightarrow>
             (case getAddress env walletAddress of
                Inl e \<Rightarrow> (s3, Some e)
              | Inr address \<Rightarrow>
                  create_account_and_client env ''[Dynamic]'' (DynamicSigner address)
                    (console_log [Txt ''[Dynamic] Wallet address:'', Txt address] s3)))"

definition dynamic_initMee :: "environment \<Rightarrow> hooks \<Rightarrow> page \<Rightarrow> page" where
  "dynamic_initMee env h s =
     (case wallet h of
        None \<Rightarrow> s
      | Some walletAddress \<Rightarrow>
          if walletAddress = [] then s
          else if meeClient s \<noteq> None then s
          else if \<not> isEthereumWallet h
          then console_error [Txt ''[Dynamic] Wallet is not an Ethereum wallet''] s
          else (case dynamic_init_try env walletAddress s of
                  (s', None) \<Rightarrow> s'
                | (s', Some err) \<Rightarrow>
                    setStatus (''Error initializing MEE: '' @ err_text err)
                      (console_error [Txt ''[Dynamic] Failed to initialize MEE:'', Thrown err] s')))"

subsection \<open>Balance polling\<close>

text \<open>
  What one \<open>fetch\<close> of the balance comes to: the request or the reading of its body
  was rejected, or the body was read and its \<open>result\<close> member is the given text
  (\<open>None\<close> when the body has no such member). \<open>toBigInt\<close> is the language's
  \<open>BigInt(...)\<close> on a string, which throws on a text that is no number.
\<close>

datatype fetch_outcome = Rejected thrown | Body "string option"

definition balanceOf_data :: "string \<Rightarrow> string" where
  "balanceOf_data address = ''0x70a08231000000000000000000000000'' @ drop 2 address"

definition fetchBalance ::
  "(string \<Rightarrow> thrown + int) \<Rightarrow> hooks \<Rightarrow> fetch_outcome \<Rightarrow> page \<Rightarrow> page" where
  "fetchBalance toBigInt h outcome s =
     (case wallet h of
        None \<Rightarrow> s
      | Some walletAddress \<Rightarrow>
          if walletAddress = [] then s
          else
            (let s1 = called (Fetch (balanceOf_data walletAddress)) s
             in case outcome of
                  Rejected err \<Rightarrow> console_error [Txt ''Failed to fetch balance:'', Thrown err] s1
                | Body result \<Rightarrow>
                    if falsy result then s1
                    else (case toBigInt (the result) of
                            Inl err \<Rightarrow>
                              console_error [Txt ''Failed to fetch balance:'', Thrown err] s1
                          | Inr n \<Rightarrow> s1\<lparr>balance := Some n\<rparr>)))"

text \<open>
  The polling effect: \<open>fetchBalance(); const interval = setInterval(fetchBalance, 10000)\<close>.
  Setting it up runs \<open>fetchBalance\<close> once and registers the timer; each tick of the
  timer runs it once more. \<open>poll\<close> is a sequence of such runs, one per outcome of
  the list.
\<close>

datatype timer = Interval nat

definition balance_effect ::
  "(string \<Rightarrow> thrown + int) \<Rightarrow> hooks \<Rightarrow> fetch_outcome \<Rightarrow> page \<Rightarrow> page \<times> timer" where
  "balance_effect toBigInt h outcome s = (fetchBalance toBigInt h outcome s, Interval 10000)"

fun poll ::
  "(string \<Rightarrow> thrown + int) \<Rightarrow> hooks \<Rightarrow> fetch_outcome list \<Rightarrow> page \<Rightarrow> page" where
  "poll toBigInt h [] s = s"
| "poll toBigInt h (outcome # later) s = poll toBigInt h later (fetchBalance toBigInt h outcome s)"

definition fetches :: "page \<Rightarrow> external_call list" where
  "fetches s = filter (\<lambda>c. case c of Fetch _ \<Rightarrow> True | _ \<Rightarrow> False) (calls s)"

subsection \<open>Transfers\<close>

definition transfer_call :: "string \<Rightarrow> composable_call" where
  "transfer_call recipient =
     \<lparr>cc_chainId = base_id, cc_to = USDC_ADDRESS, cc_functionName = ''transfer'',
      cc_recipient = recipient, cc_amount = TRANSFER_AMOUNT\<rparr>"

text \<open>
  \<open>Promise.all\<close> over promises given with the time at which each settles: the
  values in the order of the list when none is rejected, and otherwise the rejection
  that settles first (of rejections settling at the same time, the one earliest in
  the list).
\<close>

fun first_rejection :: "(nat \<times> (thrown + 'a)) list \<Rightarrow> (nat \<times> thrown) option" where
  "first_rejection [] = None"
| "first_rejection ((t, Inr v) # rest) = first_rejection rest"
| "first_rejection ((t, Inl e) # rest) =
     (case first_rejection rest of
        None \<Rightarrow> Some (t, e)
      | Some (t', e') \<Rightarrow> if t' < t then Some (t', e') else Some (t, e))"

definition Promise_all :: "(nat \<times> (thrown + 'a)) list \<Rightarrow> thrown + 'a list" where
  "Promise_all settled =
     (case first_rejection settled of
        Some (t, e) \<Rightarrow> Inl e
      | None \<Rightarrow> collect (map snd settled))"

text \<open>
  \<open>orchestrator.buildComposable({ ... })\<close> for one recipient: the promise of the
  instruction, with the time at which it settles.
\<close>

definition build_transfer :: "environment \<Rightarrow> string \<Rightarrow> nat \<times> (thrown + instruction)" where
  "build_transfer env recipient =
     (buildSettledAt env (transfer_call recipient), buildComposable env (transfer_call recipient))"

text \<open>
  The \<open>try\<close> block of \<open>executeTransfers\<close> from the building of the instructions on.
  The \<open>map\<close> starts every build before \<open>Promise.all\<close> is awaited.
\<close>

definition send_transfers ::
  "environment \<Rightarrow> string list \<Rightarrow> page \<Rightarrow> page \<times> thrown option" where
  "send_transfers env valid s0 =
     (let s1 = setStatus ''Building transfer instructions...'' s0;
          s2 = s1\<lparr>calls := calls s1 @ map (BuildComposable \<circ> transfer_call) valid\<rparr>
      in case Promise_all (map (build_transfer env) valid) of
           Inl e \<Rightarrow> (s2, Some e)
         | Inr transfers \<Rightarrow>
             (let totalAmount = int (length transfers) * TRANSFER_AMOUNT;
                  s3 = setStatus ''Simulating & requesting Fusion Quote...'' s2;
                  req = \<lparr>instructions = transfers,
                         trigger_chainId = base_id,
                         trigger_tokenAddress = USDC_ADDRESS,
                         trigger_amount = totalAmount,
                         feeToken_address = USDC_ADDRESS,
                         feeToken_chainId = base_id,
                         simulate = True\<rparr>;
                  s4 = called (GetFusionQuote req) s3
              in case getFusionQuote env req of
                   Inl e \<Rightarrow> (s4, Some e)
                 | Inr fusionQuote \<Rightarrow>
                     (let s5 = setStatus ''Awaiting signature...'' s4;
                          s6 = called (ExecuteFusionQuote fusionQuote) s5
                      in case executeFusionQuote env fusionQuote of
                           Inl e \<Rightarrow> (s6, Some e)
                         | Inr hash \<Rightarrow>
                             (case getMeeScanLink env hash of
                                Inl e \<Rightarrow> (s6, Some e)
                              | Inr link \<Rightarrow>
                                  (let s7 = setStatus ''Waiting for confirmation...''
                                              (s6\<lparr>meeScanLink := Some link\<rparr>);
                                       s8 = called (WaitForSupertransactionReceipt hash) s7
                                   in case waitForSupertransactionReceipt env hash of
                                        Inl e \<Rightarrow> (s8, Some e)
                                      | Inr _ \<Rightarrow> (setStatus ''Transaction confirmed!'' s8, None))))))"

text \<open>\<open>catch (err) { console.error(err); setStatus(`Error: ${err.message}`) }\<close>\<close>

definition finish_try :: "page \<times> thrown option \<Rightarrow> page" where
  "finish_try r =
     (case r of
        (s, None) \<Rightarrow> s
      | (s, Some err) \<Rightarrow> setStatus (''Error: '' @ err_message err) (console_error [Thrown err] s))"

definition not_initialized :: string where
  "not_initialized = ''Error: MEE client not initialized. Please wait...''"

definition no_recipient :: string where
  "no_recipient = ''Error: Please add at least one recipient.''"

text \<open>
  \<open>executeTransfers\<close> of each page. The filter of the recipients stands before the
  \<open>try\<close>: what it throws is not caught and the result is \<open>Inl\<close>.
\<close>

definition privy_executeTransfers :: "environment \<Rightarrow> hooks \<Rightarrow> page \<Rightarrow> thrown + page" where
  "privy_executeTransfers env h s =
     (if orchestrator s = None \<or> meeClient s = None \<or> wallet h = None
      then Inr (setStatus not_initialized s)
      else case validRecipients (recipients s) of
             Inl e \<Rightarrow> Inl e
           | Inr valid \<Rightarrow>
               if length valid = 0 then Inr (setStatus no_recipient s)
               else
                 (let s1 = setStatus ''Preparing transaction...'' s;
                      s2 = called (SwitchChain base_id) s1;
                      s3 = (case switchChain env of
                              Inl e \<Rightarrow>
                                console_log [Txt ''[Privy] Already on Base or switch not needed''] s2
                            | Inr _ \<Rightarrow> s2)
                  in Inr (finish_try (send_transfers env valid s3))))"

definition para_executeTransfers :: "environment \<Rightarrow> hooks \<Rightarrow> page \<Rightarrow> thrown + page" where
  "para_executeTransfers env h s =
     (if orchestrator s = None \<or> meeClient s = None \<or> falsy (wallet h)
      then Inr (setStatus not_initialized s)
      else case validRecipients (recipients s) of
             Inl e \<Rightarrow> Inl e
           | Inr valid \<Rightarrow>
               if length valid = 0 then Inr (setStatus no_recipient s)
               else
                 (let s1 = setStatus ''Preparing transaction...'' s
                  in Inr (finish_try (send_transfers env valid s1))))"

definition dynamic_executeTransfers :: "environment \<Rightarrow> hooks \<Rightarrow> page \<Rightarrow> thrown + page" where
  "dynamic_executeTransfers env h s =
     (if orchestrator s = None \<or> meeClient s = None \<or> wallet h = None
      then Inr (setStatus not_initialized s)
      else case validRecipients (recipients s) of
             Inl e \<Rightarrow> Inl e
           | Inr valid \<Rightarrow>
               if length valid = 0 then Inr (setStatus no_recipient s)
               else
                 (let s1 = setStatus ''Preparing transaction...'' s;
                      s2 = called (SwitchChain base_id) s1;
                      s3 = (case switchChain env of
                              Inl e \<Rightarrow>
                                console_log
                                  [Txt ''[Dynamic] Network switch skipped for transfer:'', Thrown e] s2
                            | Inr _ \<Rightarrow> console_log [Txt ''[Dynamic] Switched to Base for transfer''] s2)
                  in Inr (finish_try (send_transfers env valid s3))))"

text \<open>The quote request built from the instructions of the transfers.\<close>

definition the_request :: "instruction list \<Rightarrow> quote_request" where
  "the_request transfers =
     \<lparr>instructions = transfers,
      trigger_chainId = base_id,
      trigger_tokenAddress = USDC_ADDRESS,
      trigger_amount = int (length transfers) * TRANSFER_AMOUNT,
      feeToken_address = USDC_ADDRESS,
      feeToken_chainId = base_id,
      simulate = True\<rparr>"

definition quote_requests :: "page \<Rightarrow> quote_request list" where
  "quote_requests s =
     concat (map (\<lambda>c. case c of GetFusionQuote req \<Rightarrow> [req] | _ \<Rightarrow> []) (calls s))"

text \<open>The calls of \<open>orchestrator.buildComposable\<close> a page has made, in order.\<close>

definition build_calls :: "page \<Rightarrow> composable_call list" where
  "build_calls s =
     concat (map (\<lambda>c. case c of BuildComposable call \<Rightarrow> [call] | _ \<Rightarrow> []) (calls s))"

text \<open>
  The status text with which \<open>executeTransfers\<close> leaves its \<open>try\<close> block, read off
  the awaited calls in the order of the source: the first one that is rejected gives
  the text of the \<open>catch\<close>.
\<close>

definition transfer_status :: "environment \<Rightarrow> string list \<Rightarrow> string" where
  "transfer_status env valid =
     (case Promise_all (map (build_transfer env) valid) of
        Inl err \<Rightarrow> ''Error: '' @ err_message err
      | Inr transfers \<Rightarrow>
          (case getFusionQuote env (the_request transfers) of
             Inl err \<Rightarrow> ''Error: '' @ err_message err
           | Inr fusionQuote \<Rightarrow>
               (case executeFusionQuote env fusionQuote of
                  Inl err \<Rightarrow> ''Error: '' @ err_message err
                | Inr hash \<Rightarrow>
                    (case getMeeScanLink env hash of
                       Inl err \<Rightarrow> ''Error: '' @ err_message err
                     | Inr link \<Rightarrow>
                         (case waitForSupertransactionReceipt env hash of
                            Inl err \<Rightarrow> ''Error: '' @ err_message err
                          | Inr done \<Rightarrow> ''Transaction confirmed!'')))))"

subsection \<open>Configuration\<close>

text \<open>
  \<open>import.meta.env\<close> maps the names of the keys that are set to their values. The
  exported component of each page returns the configuration panel, or the provider
  with the wallet page inside it.
\<close>

datatype view =
    ConfigurationRequired string string
  | PrivyProvider string
  | ParaProvider string
  | DynamicContextProvider string

definition PrivyExample :: "(string \<rightharpoonup> string) \<Rightarrow> view" where
  "PrivyExample env =
     (let appId = env ''VITE_PRIVY_APP_ID''
      in if falsy appId
         then ConfigurationRequired ''Missing App ID'' ''VITE_PRIVY_APP_ID=your_privy_app_id_here''
         else PrivyProvider (the appId))"

definition ParaExample :: "(string \<rightharpoonup> string) \<Rightarrow> view" where
  "ParaExample env =
     (let apiKey = env ''VITE_PARA_API_KEY''
      in if falsy apiKey
         then ConfigurationRequired ''Missing API Key'' ''VITE_PARA_API_KEY=your_api_key_here''
         else ParaProvider (the apiKey))"

definition DynamicExample :: "(string \<rightharpoonup> string) \<Rightarrow> view" where
  "DynamicExample env =
     (let environmentId = env ''VITE_DYNAMIC_ENVIRONMENT_ID''
      in if falsy environmentId
         then ConfigurationRequired ''Missing Environment ID''
                ''VITE_DYNAMIC_ENVIRONMENT_ID=your_environment_id_here''
         else DynamicContextProvider (the environmentId))"

text \<open>
  ParaExample.tsx also builds a client when the module is loaded, before any page is
  rendered: \<open>new Para(Environment.BETA, import.meta.env.VITE_PARA_API_KEY || '')\<close>.
  This is the key it is given.
\<close>

definition para_module_key :: "(string \<rightharpoonup> string) \<Rightarrow> string" where
  "para_module_key env = (if falsy (env ''VITE_PARA_API_KEY'') then [] else the (env ''VITE_PARA_API_KEY''))"

definition is_panel :: "view \<Rightarrow> bool" where
  "is_panel v = (case v of ConfigurationRequired _ _ \<Rightarrow> True | _ \<Rightarrow> False)"

subsection \<open>Example sessions\<close>

text \<open>
  The state a page starts with; a connected wallet; a world in which every call
  succeeds and one in which the network is down; and a page whose account and client
  are set, with two recipients entered.
\<close>

definition initial_page :: page where
  "initial_page =
     \<lparr>status = None, recipients = initial_recipients, balance = None, meeScanLink = None,
      meeClient = None, orchestrator = None, console = [], calls = []\<rparr>"

definition connected :: hooks where
  "connected = \<lparr>wallet = Some ''0xA'', isConnected = True, isEthereumWallet = True\<rparr>"

definition answering :: environment where
  "answering =
     \<lparr>switchChain = Inr (),
      getTransport = Inr (),
      getAddress = (\<lambda>a. Inr a),
      createParaAccount = Inr (ParaAccount 0),
      toMultichainNexusAccount = (\<lambda>sg. Inr (AccountHandle 1)),
      createMeeClient = (\<lambda>acct. Inr (ClientHandle 1)),
      buildComposable = (\<lambda>c. Inr (Instruction (length (cc_recipient c)))),
      buildSettledAt = (\<lambda>c. 1),
      getFusionQuote = (\<lambda>req. Inr (Quote (length (instructions req)))),
      executeFusionQuote = (\<lambda>q. Inr ''0xhash''),
      getMeeScanLink = (\<lambda>hash. Inr (''https://meescan.biconomy.io/details/'' @ hash)),
      waitForSupertransactionReceipt = (\<lambda>hash. Inr ())\<rparr>"

definition unreachable :: environment where
  "unreachable =
     \<lparr>switchChain = Inl (ErrorObj ''Failed to fetch''),
      getTransport = Inl (ErrorObj ''Failed to fetch''),
      getAddress = (\<lambda>a. Inr a),
      createParaAccount = Inl (ErrorObj ''Failed to fetch''),
      toMultichainNexusAccount = (\<lambda>sg. Inl (ErrorObj ''Failed to fetch'')),
      createMeeClient = (\<lambda>acct. Inl (ErrorObj ''Failed to fetch'')),
      buildComposable = (\<lambda>c. Inr (Instruction 0)),
      buildSettledAt = (\<lambda>c. 1),
      getFusionQuote = (\<lambda>req. Inl (ErrorObj ''Failed to fetch'')),
      executeFusionQuote = (\<lambda>q. Inl (ErrorObj ''Failed to fetch'')),
      getMeeScanLink = (\<lambda>hash. Inr hash),
      waitForSupertransactionReceipt = (\<lambda>hash. Inl (ErrorObj ''Failed to fetch''))\<rparr>"

definition ready_page :: page where
  "ready_page =
     initial_page\<lparr>orchestrator := Some (AccountHandle 1), meeClient := Some (ClientHandle 1),
                   recipients := [Str ''0xabc1'', Str ''0xabc2'']\<rparr>"


definition declined :: environment where
  "declined =
     answering\<lparr>switchChain := Inl (MessageObj ''Chain not supported'' ''[object Object]''),
               executeFusionQuote :=
                 (\<lambda>q. Inl (MessageObj ''User rejected the request.'' ''[object Object]''))\<rparr>"

definition switch_refused :: environment where
  "switch_refused =
     answering\<lparr>switchChain := Inl (MessageObj ''Chain not supported'' ''[object Object]'')\<rparr>"

section \<open>Properties\<close>


subsection \<open>Serialization of typed data\<close>

declare SerializeJSONProperty.simps [simp del]
declare decimal_digits.simps [simp del]

lemma enumerate_map_snd: "enumerate n (map f xs) = map (\<lambda>(i, x). (i, f x)) (enumerate n xs)"
  by (induction xs arbitrary: n) auto

lemma serialize_array:
  "SerializeJSONProperty r num key (JArray xs) =
     (case collect (map (\<lambda>(i, x). SerializeJSONProperty r num (decimal_digits i) x)
                        (enumerate 0 xs)) of
        Inl e \<Rightarrow> Inl e
      | Inr parts \<Rightarrow> Inr (''['' @ join '','' parts @ '']''))"
  by (simp add: SerializeJSONProperty.simps [of _ _ _ "JArray _"] replacer_def)

lemma serialize_object:
  "SerializeJSONProperty r num key (JObject kvs) =
     (case collect (map (\<lambda>(k, x). case SerializeJSONProperty r num k x of
                                     Inl e \<Rightarrow> Inl e
                                   | Inr t \<Rightarrow> Inr (QuoteJSONString k @ '':'' @ t)) kvs) of
        Inl e \<Rightarrow> Inl e
      | Inr parts \<Rightarrow> Inr (''{'' @ join '','' parts @ ''}''))"
  by (simp add: SerializeJSONProperty.simps [of _ _ _ "JObject _"] replacer_def)

lemma serialize_leaves:
  "SerializeJSONProperty r num key JNull = Inr ''null''"
  "SerializeJSONProperty r num key (JBool b) = Inr (if b then ''true'' else ''false'')"
  "SerializeJSONProperty r num key (JNumber x) = Inr (num x)"
  "SerializeJSONProperty r num key (JString s) = Inr (QuoteJSONString s)"
  "SerializeJSONProperty True num key (JBigInt n) = Inr (QuoteJSONString (bigint_toString n))"
  "SerializeJSONProperty False num key (JBigInt n) = Inl bigint_type_error"
  by (simp_all add: SerializeJSONProperty.simps [of _ _ _ JNull]
      SerializeJSONProperty.simps [of _ _ _ "JBool _"]
      SerializeJSONProperty.simps [of _ _ _ "JNumber _"]
      SerializeJSONProperty.simps [of _ _ _ "JString _"]
      SerializeJSONProperty.simps [of _ _ _ "JBigInt _"] replacer_def)

lemma serialize_replacer_substitutes:
  "SerializeJSONProperty True num key v = SerializeJSONProperty False num key (bigints_as_strings v)"
proof (induction v arbitrary: key)
  case (JArray xs)
  have "map (\<lambda>(i, x). SerializeJSONProperty True num (decimal_digits i) x) (enumerate 0 xs)
      = map (\<lambda>(i, x). SerializeJSONProperty False num (decimal_digits i) x)
            (enumerate 0 (map bigints_as_strings xs))"
    using JArray by (auto simp: enumerate_map_snd in_set_enumerate_eq)
  then show ?case
    by (simp only: bigints_as_strings.simps serialize_array)
next
  case (JObject kvs)
  have "map (\<lambda>(k, x). case SerializeJSONProperty True num k x of
                          Inl e \<Rightarrow> Inl e | Inr t \<Rightarrow> Inr (QuoteJSONString k @ '':'' @ t)) kvs
      = map (\<lambda>(k, x). case SerializeJSONProperty False num k x of
                          Inl e \<Rightarrow> Inl e | Inr t \<Rightarrow> Inr (QuoteJSONString k @ '':'' @ t))
            (map (\<lambda>(k, v). (k, bigints_as_strings v)) kvs)"
    using JObject by (fastforce simp: snds.simps)
  then show ?case
    by (simp only: bigints_as_strings.simps serialize_object)
qed (simp_all add: serialize_leaves)

lemma collect_all_Inr:
  "\<forall>x \<in> set xs. \<exists>v. f x = Inr v \<Longrightarrow> \<exists>vs. collect (map f xs) = Inr vs"
  by (induction xs) auto

lemma serialize_replacer_succeeds:
  "\<exists>t. SerializeJSONProperty True num key v = Inr t"
proof (induction v arbitrary: key)
  case (JArray xs)
  then have "\<forall>p \<in> set (enumerate 0 xs).
      \<exists>t. (\<lambda>(i, x). SerializeJSONProperty True num (decimal_digits i) x) p = Inr t"
    by (auto simp: in_set_enumerate_eq)
  from collect_all_Inr [OF this] obtain parts where parts:
    "collect (map (\<lambda>(i, x). SerializeJSONProperty True num (decimal_digits i) x)
                  (enumerate 0 xs)) = Inr parts"
    by blast
  have "SerializeJSONProperty True num key (JArray xs) = Inr (''['' @ join '','' parts @ '']'')"
    by (simp only: serialize_array parts sum.case)
  then show ?case ..
next
  case (JObject kvs)
  have "\<forall>p \<in> set kvs.
      \<exists>t. (\<lambda>(k, x). case SerializeJSONProperty True num k x of
                         Inl e \<Rightarrow> Inl e | Inr t \<Rightarrow> Inr (QuoteJSONString k @ '':'' @ t)) p = Inr t"
  proof
    fix p assume p: "p \<in> set kvs"
    obtain k x where kx: "p = (k, x)" by (cases p)
    with p have "x \<in> Basic_BNFs.snds p" by (simp add: snds.simps)
    from JObject [OF p this] obtain t where "SerializeJSONProperty True num k x = Inr t" by blast
    with kx show "\<exists>t. (\<lambda>(k, x). case SerializeJSONProperty True num k x of
                         Inl e \<Rightarrow> Inl e | Inr t \<Rightarrow> Inr (QuoteJSONString k @ '':'' @ t)) p = Inr t"
      by simp
  qed
  from collect_all_Inr [OF this] obtain parts where parts:
    "collect (map (\<lambda>(k, x). case SerializeJSONProperty True num k x of
                                  Inl e \<Rightarrow> Inl e
                                | Inr t \<Rightarrow> Inr (QuoteJSONString k @ '':'' @ t)) kvs) = Inr parts"
    by blast
  have "SerializeJSONProperty True num key (JObject kvs) = Inr (''{'' @ join '','' parts @ ''}'')"
    by (simp only: serialize_object parts sum.case)
  then show ?case ..
qed (simp_all add: serialize_leaves)

lemma bigints_as_strings_idem: "bigints_as_strings (bigints_as_strings v) = bigints_as_strings v"
  by (induction v) (auto simp: snds.simps)

lemma digit_value_char: "d < 10 \<Longrightarrow> digit_value (digit_char d) = d"
  by (simp add: digit_value_def digit_char_def)

lemma decimal_nat_append: "decimal_nat (cs @ [c]) = decimal_nat cs * 10 + digit_value c"
  by (simp add: decimal_nat_def)

lemma decimal_nat_digits: "decimal_nat (decimal_digits n) = n"
proof (induction n rule: decimal_digits.induct)
  case (1 n)
  show ?case
  proof (cases "n < 10")
    case True
    then show ?thesis
      by (simp add: decimal_digits.simps [of n] decimal_nat_def digit_value_char)
  next
    case False
    with 1 show ?thesis
      by (simp add: decimal_digits.simps [of n] decimal_nat_append digit_value_char)
  qed
qed

lemma decimal_digits_ne: "decimal_digits n \<noteq> []"
  by (subst decimal_digits.simps) simp

lemma decimal_digits_are_digits: "c \<in> set (decimal_digits n) \<Longrightarrow> 48 \<le> (of_char c :: nat) \<and> (of_char c :: nat) \<le> 57"
proof (induction n rule: decimal_digits.induct)
  case (1 n)
  show ?case
  proof (cases "n < 10")
    case True
    with 1(2) have "c = digit_char n"
      by (simp add: decimal_digits.simps [of n])
    with True show ?thesis
      by (simp add: digit_char_def)
  next
    case False
    with 1(2) have "c \<in> set (decimal_digits (n div 10)) \<or> c = digit_char (n mod 10)"
      by (auto simp: decimal_digits.simps [of n])
    then show ?thesis
    proof
      assume "c \<in> set (decimal_digits (n div 10))"
      with 1(1) False show ?thesis by simp
    next
      assume "c = digit_char (n mod 10)"
      moreover have "n mod 10 < 10" by simp
      ultimately show ?thesis
        by (simp add: digit_char_def)
    qed
  qed
qed

lemma hd_decimal_digits: "hd (decimal_digits n) \<noteq> CHR ''-''"
proof -
  have "hd (decimal_digits n) \<in> set (decimal_digits n)"
    by (simp add: decimal_digits_ne)
  from decimal_digits_are_digits [OF this] show ?thesis by auto
qed

lemma decimal_value_toString: "decimal_value (bigint_toString n) = n"
proof (cases "n < 0")
  case True
  then show ?thesis
    by (simp add: decimal_value_def bigint_toString_def decimal_nat_digits)
next
  case False
  obtain c cs where cs: "decimal_digits (nat n) = c # cs"
    using decimal_digits_ne [of "nat n"] by (cases "decimal_digits (nat n)") auto
  with hd_decimal_digits [of "nat n"] have "c \<noteq> CHR ''-''" by simp
  with False cs decimal_nat_digits [of "nat n"] show ?thesis
    by (simp add: decimal_value_def bigint_toString_def)
qed

lemma quote_plain: "\<forall>c \<in> set s. 32 \<le> (of_char c :: nat) \<and> of_char c \<noteq> (34::nat) \<and> of_char c \<noteq> (92::nat)
  \<Longrightarrow> concat (map quote_char s) = s"
  by (induction s) (auto simp: quote_char_def Let_def)

lemma quote_bigint: "QuoteJSONString (bigint_toString n) = [CHR 0x22] @ bigint_toString n @ [CHR 0x22]"
proof -
  have "\<forall>c \<in> set (bigint_toString n). 32 \<le> (of_char c :: nat) \<and> of_char c \<noteq> (34::nat) \<and> of_char c \<noteq> (92::nat)"
  proof
    fix c assume "c \<in> set (bigint_toString n)"
    then consider "c = CHR ''-''" | m where "c \<in> set (decimal_digits m)"
      by (auto simp: bigint_toString_def split: if_splits)
    then show "32 \<le> (of_char c :: nat) \<and> of_char c \<noteq> (34::nat) \<and> of_char c \<noteq> (92::nat)"
    proof cases
      case 1
      then show ?thesis by simp
    next
      case 2
      from decimal_digits_are_digits [OF this] show ?thesis by auto
    qed
  qed
  from quote_plain [OF this] show ?thesis
    by (simp add: QuoteJSONString_def)
qed

lemma collect_map_Inr:
  "\<forall>x \<in> set xs. f x = Inr (g x) \<Longrightarrow> collect (map f xs) = Inr (map g xs)"
  by (induction xs) auto

lemma map_enumerate_snd: "map (\<lambda>(i, x). g x) (enumerate n xs) = map g xs"
  by (induction xs arbitrary: n) simp_all

lemma serialize_replacer_text:
  "SerializeJSONProperty True num key v = Inr (json_text num v)"
proof (induction v arbitrary: key)
  case (JArray xs)
  then have "\<forall>p \<in> set (enumerate 0 xs).
      (\<lambda>(i, x). SerializeJSONProperty True num (decimal_digits i) x) p
        = Inr ((\<lambda>(i, x). json_text num x) p)"
    by (auto simp: in_set_enumerate_eq)
  from collect_map_Inr [OF this] have parts:
    "collect (map (\<lambda>(i, x). SerializeJSONProperty True num (decimal_digits i) x)
                  (enumerate 0 xs))
       = Inr (map (\<lambda>(i, x). json_text num x) (enumerate 0 xs))" .
  show ?case
    by (simp only: serialize_array parts sum.case json_text.simps map_enumerate_snd)
next
  case (JObject kvs)
  have "\<forall>p \<in> set kvs.
      (\<lambda>(k, x). case SerializeJSONProperty True num k x of
                    Inl e \<Rightarrow> Inl e | Inr t \<Rightarrow> Inr (QuoteJSONString k @ '':'' @ t)) p
        = Inr ((\<lambda>(k, v). QuoteJSONString k @ '':'' @ json_text num v) p)"
  proof
    fix p assume p: "p \<in> set kvs"
    obtain k x where kx: "p = (k, x)" by (cases p)
    with p have "x \<in> Basic_BNFs.snds p" by (simp add: snds.simps)
    from JObject [OF p this] have "SerializeJSONProperty True num k x = Inr (json_text num x)" .
    with kx show "(\<lambda>(k, x). case SerializeJSONProperty True num k x of
                    Inl e \<Rightarrow> Inl e | Inr t \<Rightarrow> Inr (QuoteJSONString k @ '':'' @ t)) p
        = Inr ((\<lambda>(k, v). QuoteJSONString k @ '':'' @ json_text num v) p)"
      by simp
  qed
  from collect_map_Inr [OF this] have parts:
    "collect (map (\<lambda>(k, x). case SerializeJSONProperty True num k x of
                                Inl e \<Rightarrow> Inl e
                              | Inr t \<Rightarrow> Inr (QuoteJSONString k @ '':'' @ t)) kvs)
       = Inr (map (\<lambda>(k, v). QuoteJSONString k @ '':'' @ json_text num v) kvs)" .
  show ?case
    by (simp only: serialize_object parts sum.case json_text.simps)
qed (simp_all add: serialize_leaves quote_bigint)

lemma digit_chars:
  "digit_char 0 = CHR ''0''" "digit_char 1 = CHR ''1''" "digit_char 2 = CHR ''2''"
  "digit_char 3 = CHR ''3''" "digit_char 4 = CHR ''4''" "digit_char 5 = CHR ''5''"
  "digit_char 6 = CHR ''6''" "digit_char 7 = CHR ''7''" "digit_char 8 = CHR ''8''"
  "digit_char 9 = CHR ''9''" "digit_char (Suc 0) = CHR ''1''"
  by code_simp+

lemma example_text:
  "json_text num (JObject [(''amount'', JBigInt 18446744073709551616),
                            (''ids'', JArray [JBigInt (- 5), JString ''a''])])
     = ''{'' @ [CHR 0x22] @ ''amount'' @ [CHR 0x22] @ '':'' @ [CHR 0x22] @ ''18446744073709551616'' @ [CHR 0x22]
       @ '','' @ [CHR 0x22] @ ''ids'' @ [CHR 0x22] @ '':['' @ [CHR 0x22] @ ''-5'' @ [CHR 0x22] @ '',''
       @ [CHR 0x22] @ ''a'' @ [CHR 0x22] @ '']}''"
  by (simp add: QuoteJSONString_def quote_char_def bigint_toString_def decimal_digits.simps
      digit_chars)

text \<open>
  C4. For every typed-data payload, serialization with the replacer of Privy's
  \<open>signTypedData\<close> never throws and gives the JSON text of the payload in which every
  BigInt, at any depth, stands as the string of its decimal digits between double
  quotes; that text is the second parameter of the request handed to the provider.
  The digits read back give the same integer: for the payload with the members
  \<open>amount\<close> = \<open>2\<^sup>6\<^sup>4\<close> and \<open>ids\<close> = \<open>[-5n, "a"]\<close> the text holds \<open>"18446744073709551616"\<close>
  and \<open>"-5"\<close>. Without the replacer a BigInt makes the serialization throw. The text
  is a function of the payload alone, and is the same for the payload and for the
  payload with its BigInts already replaced.
\<close>

theorem typed_data_bigints_as_decimal_strings:
  "JSON_stringify True num typedData = Inr (json_text num typedData)
   \<and> privy_signTypedData_request num address typedData
       = Inr \<lparr>rpc_method = ''eth_signTypedData_v4'', params = [address, json_text num typedData]\<rparr>
   \<and> json_text num (JBigInt n) = [CHR 0x22] @ bigint_toString n @ [CHR 0x22]
   \<and> json_text num (JObject kvs)
       = ''{'' @ join '','' (map (\<lambda>(k, v). QuoteJSONString k @ '':'' @ json_text num v) kvs) @ ''}''
   \<and> json_text num (JArray xs) = ''['' @ join '','' (map (json_text num) xs) @ '']''
   \<and> json_text num (JString t) = QuoteJSONString t
   \<and> json_text num (JNumber x) = num x
   \<and> json_text num (JBool True) = ''true''
   \<and> json_text num (JBool False) = ''false''
   \<and> json_text num JNull = ''null''
   \<and> JSON_stringify True num
         (JObject [(''amount'', JBigInt 18446744073709551616),
                   (''ids'', JArray [JBigInt (- 5), JString ''a''])])
       = Inr (''{'' @ [CHR 0x22] @ ''amount'' @ [CHR 0x22] @ '':''
                @ [CHR 0x22] @ ''18446744073709551616'' @ [CHR 0x22] @ '',''
                @ [CHR 0x22] @ ''ids'' @ [CHR 0x22] @ '':[''
                @ [CHR 0x22] @ ''-5'' @ [CHR 0x22] @ '','' @ [CHR 0x22] @ ''a'' @ [CHR 0x22] @ '']}'')
   \<and> JSON_stringify True num typedData = JSON_stringify False num (bigints_as_strings typedData)
   \<and> SerializeJSONProperty True num key (JBigInt n) = Inr ([CHR 0x22] @ bigint_toString n @ [CHR 0x22])
   \<and> SerializeJSONProperty False num key (JBigInt n) = Inl bigint_type_error
   \<and> decimal_value (bigint_toString n) = n
   \<and> JSON_stringify True num (bigints_as_strings typedData) = JSON_stringify True num typedData"
proof -
  have text_of: "\<And>v. JSON_stringify True num v = Inr (json_text num v)"
    by (simp only: JSON_stringify_def serialize_replacer_text)
  have request:
    "privy_signTypedData_request num address typedData
       = Inr \<lparr>rpc_method = ''eth_signTypedData_v4'', params = [address, json_text num typedData]\<rparr>"
    by (simp add: privy_signTypedData_request_def text_of)
  have example:
    "JSON_stringify True num
         (JObject [(''amount'', JBigInt 18446744073709551616),
                   (''ids'', JArray [JBigInt (- 5), JString ''a''])])
       = Inr (''{'' @ [CHR 0x22] @ ''amount'' @ [CHR 0x22] @ '':''
                @ [CHR 0x22] @ ''18446744073709551616'' @ [CHR 0x22] @ '',''
                @ [CHR 0x22] @ ''ids'' @ [CHR 0x22] @ '':[''
                @ [CHR 0x22] @ ''-5'' @ [CHR 0x22] @ '','' @ [CHR 0x22] @ ''a'' @ [CHR 0x22] @ '']}'')"
    by (simp only: text_of example_text)
  have substituted:
    "JSON_stringify True num typedData = JSON_stringify False num (bigints_as_strings typedData)"
    by (simp add: JSON_stringify_def serialize_replacer_substitutes)
  have leaf:
    "SerializeJSONProperty True num key (JBigInt n) = Inr ([CHR 0x22] @ bigint_toString n @ [CHR 0x22])"
    by (simp add: serialize_leaves quote_bigint)
  have unreplaced: "SerializeJSONProperty False num key (JBigInt n) = Inl bigint_type_error"
    by (simp add: serialize_leaves)
  have again:
    "JSON_stringify True num (bigints_as_strings typedData) = JSON_stringify True num typedData"
    by (simp add: JSON_stringify_def serialize_replacer_substitutes bigints_as_strings_idem)
  have shape:
    "json_text num (JBigInt n) = [CHR 0x22] @ bigint_toString n @ [CHR 0x22]"
    "json_text num (JObject kvs)
       = ''{'' @ join '','' (map (\<lambda>(k, v). QuoteJSONString k @ '':'' @ json_text num v) kvs) @ ''}''"
    "json_text num (JArray xs) = ''['' @ join '','' (map (json_text num) xs) @ '']''"
    "json_text num (JString t) = QuoteJSONString t"
    "json_text num (JNumber x) = num x"
    "json_text num (JBool True) = ''true''"
    "json_text num (JBool False) = ''false''"
    "json_text num JNull = ''null''"
    by simp_all
  show ?thesis
    by (intro conjI) (rule text_of request shape example substituted leaf unreplaced
        decimal_value_toString again)+
qed

subsection \<open>Message signing\<close>

lemma hex_digit_value: "d < 16 \<Longrightarrow> hex_value (hex_digit d) = d"
proof -
  assume "d < 16"
  then consider "d = 0" | "d = 1" | "d = 2" | "d = 3" | "d = 4" | "d = 5" | "d = 6" | "d = 7"
    | "d = 8" | "d = 9" | "d = 10" | "d = 11" | "d = 12" | "d = 13" | "d = 14" | "d = 15"
    by atomize_elim arith
  then show ?thesis
    by cases (simp_all add: hex_digit_def hex_value_def)
qed

lemma hex_digit_in: "hex_digit d \<in> set ''0123456789abcdef''"
  unfolding hex_digit_def by (rule nth_mem) simp

lemma byte_of_hex: "(of_nat (hex_value (hex_digit (unat b div 16)) * 16 + hex_value (hex_digit (unat b mod 16))) :: 8 word) = b"
proof -
  have "unat b < 256" using unsigned_less [of b] by simp
  then have "unat b div 16 < 16" by simp
  then have "hex_value (hex_digit (unat b div 16)) * 16 + hex_value (hex_digit (unat b mod 16)) = unat b"
    by (simp add: hex_digit_value)
  then show ?thesis by simp
qed

lemma bytes_of_hex_byte: "bytes_of_hex (hex_of_byte b @ cs) = b # bytes_of_hex cs"
proof -
  have "bytes_of_hex (hex_of_byte b @ cs)
      = of_nat (hex_value (hex_digit (unat b div 16)) * 16 + hex_value (hex_digit (unat b mod 16)))
        # bytes_of_hex cs"
    by (simp only: hex_of_byte_def append_Cons append_Nil bytes_of_hex.simps)
  then show ?thesis
    by (simp only: byte_of_hex)
qed

lemma bytes_of_hex_toString: "bytes_of_hex (buffer_toString_hex bs) = bs"
proof (induction bs)
  case Nil
  show ?case by (simp add: buffer_toString_hex_def)
next
  case (Cons b bs)
  have "buffer_toString_hex (b # bs) = hex_of_byte b @ buffer_toString_hex bs"
    by (simp add: buffer_toString_hex_def)
  with Cons show ?case
    by (simp only: bytes_of_hex_byte)
qed

lemma length_toString_hex: "length (buffer_toString_hex bs) = 2 * length bs"
  by (induction bs) (simp_all add: buffer_toString_hex_def hex_of_byte_def)

lemma toString_hex_digits: "list_all (\<lambda>c. c \<in> set ''0123456789abcdef'') (buffer_toString_hex bs)"
  by (induction bs) (simp_all add: buffer_toString_hex_def hex_of_byte_def hex_digit_in del: set_simps)

text \<open>
  C5, as the pages have it. For every byte array, Privy's \<open>signMessage\<close> hands to the
  provider, as the first parameter of \<open>personal_sign\<close>, the text \<open>0x\<close> followed by
  two lower-case hexadecimal digits per byte, from which the bytes can be read back.
  Dynamic's \<open>signMessage\<close> does no encoding: it hands the message, with its byte
  array, to the wallet client as it received it.
\<close>

theorem raw_bytes_forwarding:
  "privy_signMessage provider address (Raw (RawBytes bs))
     = request provider \<lparr>rpc_method = ''personal_sign'',
                          params = [''0x'' @ buffer_toString_hex bs, address]\<rparr>
   \<and> length (buffer_toString_hex bs) = 2 * length bs
   \<and> list_all (\<lambda>c. c \<in> set ''0123456789abcdef'') (buffer_toString_hex bs)
   \<and> bytes_of_hex (buffer_toString_hex bs) = bs
   \<and> dynamic_signMessage walletClient address' (Raw (RawBytes bs))
     = perform walletClient (SignMessage (wc_account walletClient) (Raw (RawBytes bs)))"
  by (simp add: privy_signMessage_def privy_signMessage_request_def messageToSign_def
      length_toString_hex toString_hex_digits bytes_of_hex_toString
      dynamic_signMessage_def dynamic_signMessage_call_def del: set_simps)

text \<open>
  C5 as stated fails for the Dynamic adapter: for the bytes \<open>DE AD\<close>, whose encoding
  is \<open>0xdead\<close>, what the wallet client is handed is the byte array itself, neither
  the text \<open>0xdead\<close> nor a wrapper of it.
\<close>

theorem dynamic_passes_bytes_unencoded:
  "messageToSign (Raw (RawBytes [0xDE, 0xAD])) = ''0xdead''
   \<and> dynamic_signMessage_call (moved_wallet_client :: unit wallet_client) (Raw (RawBytes [0xDE, 0xAD]))
       = SignMessage (Some ''0xB'') (Raw (RawBytes [0xDE, 0xAD]))
   \<and> dynamic_signMessage_call (moved_wallet_client :: unit wallet_client) (Raw (RawBytes [0xDE, 0xAD]))
       \<noteq> SignMessage (Some ''0xB'') (Text ''0xdead'')
   \<and> dynamic_signMessage_call (moved_wallet_client :: unit wallet_client) (Raw (RawBytes [0xDE, 0xAD]))
       \<noteq> SignMessage (Some ''0xB'') (Raw (RawHex ''0xdead''))"
  by (simp add: messageToSign_def buffer_toString_hex_def hex_of_byte_def hex_digit_def
      dynamic_signMessage_call_def moved_wallet_client_def)


text \<open>
  C3, as the pages have it. The adapters compare no addresses: whatever account the
  session is authenticated for, a signing call hands its request to the provider
  (Privy, under the captured address) or to the wallet client (Dynamic, under the
  wallet client's own account) and returns the outcome unchanged, the signature as
  well as the error.
\<close>

theorem signing_returns_transport_outcome:
  "privy_signMessage (provider\<lparr>session_address := a\<rparr>) address message
     = request provider (privy_signMessage_request address message)
   \<and> privy_signTypedData (provider\<lparr>session_address := a\<rparr>) num address typedData
     = (case JSON_stringify True num typedData of
          Inl e \<Rightarrow> Inl e
        | Inr json \<Rightarrow>
            request provider \<lparr>rpc_method = ''eth_signTypedData_v4'', params = [address, json]\<rparr>)
   \<and> dynamic_signMessage (walletClient\<lparr>client_session_address := a\<rparr>) address message
     = perform walletClient (SignMessage (wc_account walletClient) message)
   \<and> dynamic_signTypedData (walletClient\<lparr>client_session_address := a\<rparr>) address td
     = perform walletClient (SignTypedData (wc_account walletClient) td)"
  by (simp add: privy_signMessage_def privy_signTypedData_def privy_signTypedData_request_def
      dynamic_signMessage_def dynamic_signTypedData_def dynamic_signMessage_call_def
      split: sum.splits)

text \<open>
  C3 as stated fails: with a session that has moved from \<open>0xA\<close> to \<open>0xB\<close> and a
  transport that signs for \<open>0xB\<close>, every signing call of an adapter built for
  \<open>0xA\<close> returns that signature and no error.
\<close>

theorem moved_session_still_signs:
  "session_address moved_provider \<noteq> ''0xA''
   \<and> privy_signMessage moved_provider ''0xA'' (Text ''hello'') = Inr ''signature of 0xB''
   \<and> privy_signTypedData moved_provider bigint_toString ''0xA'' (JObject [(''value'', JBigInt 1)])
       = Inr ''signature of 0xB''
   \<and> client_session_address (moved_wallet_client :: int js_value wallet_client) \<noteq> ''0xA''
   \<and> dynamic_signMessage (moved_wallet_client :: int js_value wallet_client) ''0xA'' (Text ''hello'')
       = Inr ''signature of 0xB''
   \<and> dynamic_signTypedData moved_wallet_client ''0xA'' (JObject [(''value'', JBigInt (1::int))] :: int js_value)
       = Inr ''signature of 0xB''"
proof -
  obtain json where "JSON_stringify True bigint_toString (JObject [(''value'', JBigInt 1)] :: int js_value) = Inr json"
    using serialize_replacer_succeeds [of bigint_toString "[]"] by (auto simp: JSON_stringify_def)
  then show ?thesis
    by (simp add: moved_provider_def moved_wallet_client_def privy_signMessage_def
        privy_signTypedData_def privy_signTypedData_request_def
        dynamic_signMessage_def dynamic_signTypedData_def)
qed


subsection \<open>Unsupported transaction signing\<close>

text \<open>
  C1. \<open>signTransaction\<close> of the Privy adapter and of the Dynamic adapter fails for every
  argument with the error whose message says that signing transactions is not
  supported, and so never returns a signature.
\<close>

theorem signTransaction_always_unsupported:
  "privy_signTransaction tx = Inl (ErrorObj ''signTransaction not supported - use MEE for transactions'')
   \<and> dynamic_signTransaction tx' = Inl (ErrorObj ''signTransaction not supported - use MEE for transactions'')
   \<and> (\<forall>sig. privy_signTransaction tx \<noteq> Inr sig)
   \<and> (\<forall>sig. dynamic_signTransaction tx' \<noteq> Inr sig)"
  by (simp add: privy_signTransaction_def dynamic_signTransaction_def unsupported_message_def)

section \<open>Properties of the pages\<close>

subsection \<open>The recipients list\<close>

lemma length_spread: "length (spread rs) = length rs"
  by (simp add: spread_def)

lemma present_spread: "present (spread rs) = spread rs"
  by (induction rs) (auto simp: present_def spread_def split: slot.splits)

lemma present_length_le: "length (present rs) \<le> length rs"
  by (simp add: present_def)

lemma kept_nonempty: "kept rs \<Longrightarrow> rs \<noteq> []"
  by (auto simp: kept_def present_def)

lemma present_update: "present ((spread rs)[i := Str v]) = (spread rs)[i := Str v]"
proof -
  have "\<forall>e \<in> set ((spread rs)[i := Str v]). e \<noteq> Hole"
  proof
    fix e assume "e \<in> set ((spread rs)[i := Str v])"
    then have "e \<in> insert (Str v) (set (spread rs))"
      using set_update_subset_insert by fast
    then show "e \<noteq> Hole"
      by (auto simp: spread_def split: slot.splits)
  qed
  then show ?thesis
    by (simp add: present_def)
qed

lemma length_handleRecipientChange:
  "length (handleRecipientChange index v rs) = max (length rs) (Suc index)"
  by (auto simp: handleRecipientChange_def Let_def length_spread)

lemma kept_handleRecipientChange: "kept rs \<Longrightarrow> kept (handleRecipientChange index v rs)"
proof -
  assume k: "kept rs"
  then have ne: "1 \<le> length rs"
    using present_length_le [of rs] by (simp add: kept_def)
  show ?thesis
  proof (cases "index < length rs")
    case True
    then have "handleRecipientChange index v rs = (spread rs)[index := Str v]"
      by (simp add: handleRecipientChange_def Let_def length_spread)
    with ne show ?thesis
      by (simp add: kept_def present_update length_spread)
  next
    case False
    then have "handleRecipientChange index v rs
        = spread rs @ replicate (index - length rs) Hole @ [Str v]"
      by (simp add: handleRecipientChange_def Let_def length_spread)
    moreover have "present (spread rs @ replicate (index - length rs) Hole @ [Str v])
        = spread rs @ [Str v]"
      using present_spread [of rs] by (simp add: present_def)
    ultimately show ?thesis
      using ne by (simp add: kept_def length_spread)
  qed
qed

lemma kept_addRecipient: "kept rs \<Longrightarrow> kept (addRecipient rs)"
proof -
  assume k: "kept rs"
  then have ne: "1 \<le> length rs"
    using present_length_le [of rs] by (simp add: kept_def)
  have "present (addRecipient rs) = spread rs @ [Str []]"
    using present_spread [of rs] by (simp add: present_def addRecipient_def)
  with ne show ?thesis
    by (simp add: kept_def length_spread)
qed

lemma filter_enumerate_above:
  "k < n \<Longrightarrow> length (filter (\<lambda>(i, e). e \<noteq> Hole \<and> i \<noteq> k) (enumerate n rs)) = length (present rs)"
  by (induction rs arbitrary: n) (auto simp: present_def)

lemma filter_enumerate_drops_one:
  "length (present rs) \<le> Suc (length (filter (\<lambda>(i, e). e \<noteq> Hole \<and> i \<noteq> k) (enumerate n rs)))"
proof (induction rs arbitrary: n)
  case Nil
  show ?case by (simp add: present_def)
next
  case (Cons r rs)
  show ?case
  proof (cases "n = k")
    case True
    then have "length (filter (\<lambda>(i, e). e \<noteq> Hole \<and> i \<noteq> k) (enumerate (Suc n) rs)) = length (present rs)"
      by (simp add: filter_enumerate_above)
    with True show ?thesis
      by (simp add: present_def)
  next
    case False
    with Cons [of "Suc n"] show ?thesis
      by (simp add: present_def)
  qed
qed

lemma removed_has_no_holes:
  "present (map snd (filter (\<lambda>(i, e). e \<noteq> Hole \<and> i \<noteq> k) (enumerate n rs)))
     = map snd (filter (\<lambda>(i, e). e \<noteq> Hole \<and> i \<noteq> k) (enumerate n rs))"
  by (induction rs arbitrary: n) (auto simp: present_def)

lemma kept_removeRecipient: "kept rs \<Longrightarrow> kept (removeRecipient index rs)"
proof (cases "1 < length rs")
  case False
  assume "kept rs"
  with False show ?thesis
    by (simp add: removeRecipient_def)
next
  case True
  assume "kept rs"
  with True have two: "2 \<le> length (present rs)"
    by (simp add: kept_def)
  let ?out = "map snd (filter (\<lambda>(i, e). e \<noteq> Hole \<and> i \<noteq> index) (enumerate 0 rs))"
  from True have out: "removeRecipient index rs = ?out"
    by (simp add: removeRecipient_def)
  have "length (present rs) \<le> Suc (length ?out)"
    using filter_enumerate_drops_one [of rs index 0] by simp
  with two have "1 \<le> length ?out"
    by simp
  moreover have "present ?out = ?out"
    by (rule removed_has_no_holes)
  ultimately have "kept ?out"
    by (simp add: kept_def)
  with out show ?thesis
    by simp
qed

lemma kept_step: "kept rs \<Longrightarrow> kept (recipient_step rs ev)"
  by (cases ev) (simp_all add: kept_handleRecipientChange kept_addRecipient kept_removeRecipient)

lemma kept_foldl: "kept rs \<Longrightarrow> kept (foldl recipient_step rs events)"
  by (induction events arbitrary: rs) (simp_all add: kept_step)

lemma kept_initial: "kept initial_recipients"
  by (simp add: kept_def present_def initial_recipients_def)

text \<open>
  C10. On every page the recipients list is never empty: it starts with one entry, and
  after any sequence of edits, additions and removals, at any indices, it still has
  an entry. \<open>addRecipient\<close> makes it one longer, \<open>handleRecipientChange\<close> keeps its
  length for the index of an existing row (and extends it to the index written
  otherwise), and \<open>removeRecipient\<close> leaves a list of one entry as it is.
\<close>

theorem recipients_never_empty:
  "recipients_after events \<noteq> []
   \<and> length initial_recipients = 1
   \<and> length (addRecipient rs) = Suc (length rs)
   \<and> length (handleRecipientChange index v rs) = max (length rs) (Suc index)
   \<and> removeRecipient index [r] = [r]"
proof -
  have "kept (recipients_after events)"
    unfolding recipients_after_def by (rule kept_foldl [OF kept_initial])
  then have "recipients_after events \<noteq> []"
    by (rule kept_nonempty)
  then show ?thesis
    by (simp add: initial_recipients_def addRecipient_def length_spread
        length_handleRecipientChange removeRecipient_def)
qed

subsection \<open>Configuration\<close>

text \<open>
  C6. On each provider page, when the key the page needs is absent from the
  environment, the exported component returns the configuration panel, with the name
  of the missing setting and the line to add, and no provider component. The client
  that ParaExample.tsx builds when the module is loaded is then given the empty key.
\<close>

theorem missing_key_shows_configuration_panel:
  "(env ''VITE_PRIVY_APP_ID'' = None \<longrightarrow>
      PrivyExample env
        = ConfigurationRequired ''Missing App ID'' ''VITE_PRIVY_APP_ID=your_privy_app_id_here'')
   \<and> (env ''VITE_PARA_API_KEY'' = None \<longrightarrow>
      ParaExample env
        = ConfigurationRequired ''Missing API Key'' ''VITE_PARA_API_KEY=your_api_key_here''
      \<and> para_module_key env = [])
   \<and> (env ''VITE_DYNAMIC_ENVIRONMENT_ID'' = None \<longrightarrow>
      DynamicExample env
        = ConfigurationRequired ''Missing Environment ID''
            ''VITE_DYNAMIC_ENVIRONMENT_ID=your_environment_id_here'')"
  by (simp add: PrivyExample_def ParaExample_def DynamicExample_def para_module_key_def falsy_def)

text \<open>With no key set at all, each page is its configuration panel.\<close>

theorem missing_key_witness:
  "PrivyExample Map.empty
     = ConfigurationRequired ''Missing App ID'' ''VITE_PRIVY_APP_ID=your_privy_app_id_here''
   \<and> ParaExample Map.empty
     = ConfigurationRequired ''Missing API Key'' ''VITE_PARA_API_KEY=your_api_key_here''
   \<and> para_module_key Map.empty = []
   \<and> DynamicExample Map.empty
     = ConfigurationRequired ''Missing Environment ID''
         ''VITE_DYNAMIC_ENVIRONMENT_ID=your_environment_id_here''"
  using missing_key_shows_configuration_panel [of Map.empty] by simp

subsection \<open>Initialization\<close>

lemma privy_initMee_guard: "meeClient s \<noteq> None \<Longrightarrow> privy_initMee env h s = s"
  by (simp add: privy_initMee_def split: option.splits)

lemma para_initMee_guard: "meeClient s \<noteq> None \<Longrightarrow> para_initMee env h s = s"
  by (simp add: para_initMee_def split: option.splits)

lemma dynamic_initMee_guard: "meeClient s \<noteq> None \<Longrightarrow> dynamic_initMee env h s = s"
  by (simp add: dynamic_initMee_def split: option.splits)

lemma guarded_runs:
  "(\<And>env h. f env h s = s) \<Longrightarrow> foldl (\<lambda>s (env, h). f env h s) s runs = s"
  by (induction runs) (simp_all add: case_prod_beta)

text \<open>
  C7. Once the client state is set, a run of the initialization effect of any page
  returns at its guard: the state, with its account and client handles, is as before,
  no factory was called and nothing was logged; so it is after any number of runs,
  whatever the hooks and the world answer.
\<close>

theorem initMee_guarded_once_client_set:
  assumes "meeClient s \<noteq> None"
  shows "privy_initMee env h s = s \<and> para_initMee env h s = s \<and> dynamic_initMee env h s = s
    \<and> foldl (\<lambda>s (env, h). privy_initMee env h s) s runs = s
    \<and> foldl (\<lambda>s (env, h). para_initMee env h s) s runs = s
    \<and> foldl (\<lambda>s (env, h). dynamic_initMee env h s) s runs = s"
  using assms
  by (simp add: privy_initMee_guard para_initMee_guard dynamic_initMee_guard guarded_runs)

text \<open>A page whose client is set, run against a working and a failing world.\<close>

theorem initMee_guarded_witness:
  "meeClient ready_page \<noteq> None
   \<and> privy_initMee answering connected ready_page = ready_page
   \<and> para_initMee answering connected ready_page = ready_page
   \<and> dynamic_initMee answering connected ready_page = ready_page
   \<and> foldl (\<lambda>s (env, h). privy_initMee env h s) ready_page [(answering, connected), (unreachable, connected)]
       = ready_page"
proof -
  have c: "meeClient ready_page \<noteq> None"
    by (simp add: ready_page_def)
  from initMee_guarded_once_client_set [OF c, of answering connected
      "[(answering, connected), (unreachable, connected)]"] c
  show ?thesis by blast
qed

subsection \<open>Balance polling\<close>

lemma fetches_called_fetch: "fetches (called (Fetch d) s) = fetches s @ [Fetch d]"
  by (simp add: fetches_def called_def)

lemma fetchBalance_fetches:
  "fetches (fetchBalance toBigInt h outcome s)
     = fetches s @ (if falsy (wallet h) then [] else [Fetch (balanceOf_data (the (wallet h)))])"
  by (auto simp: fetchBalance_def falsy_def Let_def fetches_def called_def console_error_def
      split: option.splits fetch_outcome.splits sum.splits)

lemma poll_fetches:
  "length (fetches (poll toBigInt h outcomes s))
     = length (fetches s) + (if falsy (wallet h) then 0 else length outcomes)"
  by (induction outcomes arbitrary: s) (simp_all add: fetchBalance_fetches)

text \<open>
  C9. A poll whose fetch is rejected, or whose response has no \<open>result\<close> member (or
  an empty one, or one that is no number), leaves the balance as it was. Whatever its
  outcome, a run of \<open>fetchBalance\<close> sends one request and no more (none without a
  wallet address), so a failed fetch is not repeated within the run; the next request
  is that of the next run, and the timer the effect registers is one of 10000
  milliseconds whatever the outcome of the first fetch.
\<close>

theorem failed_poll_keeps_balance:
  "balance (fetchBalance toBigInt h (Rejected err) s) = balance s
   \<and> balance (fetchBalance toBigInt h (Body None) s) = balance s
   \<and> balance (fetchBalance toBigInt h (Body (Some [])) s) = balance s
   \<and> balance (fetchBalance (\<lambda>t. Inl err) h outcome s) = balance s
   \<and> fetches (fetchBalance toBigInt h outcome s)
       = fetches s @ (if falsy (wallet h) then [] else [Fetch (balanceOf_data (the (wallet h)))])
   \<and> length (fetches (poll toBigInt h outcomes s))
       = length (fetches s) + (if falsy (wallet h) then 0 else length outcomes)
   \<and> snd (balance_effect toBigInt h outcome s) = Interval 10000"
proof -
  have "balance (fetchBalance toBigInt h (Rejected err) s) = balance s"
    by (simp add: fetchBalance_def Let_def called_def console_error_def split: option.splits)
  moreover have "balance (fetchBalance toBigInt h (Body None) s) = balance s"
    by (simp add: fetchBalance_def Let_def called_def falsy_def split: option.splits)
  moreover have "balance (fetchBalance toBigInt h (Body (Some [])) s) = balance s"
    by (simp add: fetchBalance_def Let_def called_def falsy_def split: option.splits)
  moreover have "balance (fetchBalance (\<lambda>t. Inl err) h outcome s) = balance s"
    by (simp add: fetchBalance_def Let_def called_def console_error_def falsy_def
        split: option.splits fetch_outcome.splits)
  ultimately show ?thesis
    by (simp add: fetchBalance_fetches poll_fetches balance_effect_def)
qed

subsection \<open>Transfers\<close>

lemma trim_empty_iff: "(trim t = []) = list_all is_whitespace t"
proof
  assume "trim t = []"
  then have all: "\<forall>c \<in> set (dropWhile is_whitespace t). is_whitespace c"
    by (simp add: trim_def)
  have "dropWhile is_whitespace t = []"
  proof (rule ccontr)
    assume ne: "dropWhile is_whitespace t \<noteq> []"
    then have "\<not> is_whitespace (hd (dropWhile is_whitespace t))"
      by (rule hd_dropWhile)
    moreover from ne have "hd (dropWhile is_whitespace t) \<in> set (dropWhile is_whitespace t)"
      by simp
    ultimately show False using all by blast
  qed
  then show "list_all is_whitespace t"
    by (simp add: list_all_iff)
next
  assume "list_all is_whitespace t"
  then have d: "dropWhile is_whitespace t = []"
    by (simp add: list_all_iff)
  show "trim t = []"
    by (simp only: trim_def d rev.simps dropWhile.simps)
qed

lemma validRecipients_strings:
  "validRecipients (map Str rs) = Inr (filter (\<lambda>r. \<not> list_all is_whitespace r) rs)"
  by (induction rs) (simp_all add: trim_empty_iff [symmetric])

lemma collect_map_Inr_values: "collect (map Inr vs) = Inr vs"
  by (induction vs) simp_all

lemma first_rejection_values: "first_rejection (map (\<lambda>(t, v). (t, Inr v)) tvs) = None"
  by (induction tvs) auto

lemma Promise_all_values:
  assumes "map snd settled = map Inr vs"
  shows "Promise_all settled = Inr vs"
proof -
  have "first_rejection settled = None"
    using assms
  proof (induction settled arbitrary: vs)
    case Nil
    show ?case by simp
  next
    case (Cons x settled)
    then obtain v vs' where vs: "vs = v # vs'" "snd x = Inr v" "map snd settled = map Inr vs'"
      by (cases vs) auto
    obtain t where "x = (t, Inr v)"
      using vs(2) by (cases x) auto
    with Cons.IH [OF vs(3)] show ?case
      by simp
  qed
  with assms show ?thesis
    by (simp add: Promise_all_def collect_map_Inr_values)
qed

lemma first_rejection_member:
  "first_rejection settled = Some (t, e) \<Longrightarrow> (t, Inl e) \<in> set settled"
  by (induction settled arbitrary: t e rule: first_rejection.induct)
    (auto split: option.splits if_splits)

lemma first_rejection_None: "first_rejection settled = None \<Longrightarrow> (t, Inl e) \<notin> set settled"
  by (induction settled rule: first_rejection.induct) (auto split: option.splits if_splits)

lemma first_rejection_earliest:
  "first_rejection settled = Some (t, e) \<Longrightarrow> (t', Inl e') \<in> set settled \<Longrightarrow> t \<le> t'"
proof (induction settled arbitrary: t e rule: first_rejection.induct)
  case 1
  then show ?case by simp
next
  case (2 t0 v rest)
  then show ?case by auto
next
  case (3 t0 e0 rest)
  show ?case
  proof (cases "first_rejection rest")
    case None
    with 3(2) have "t = t0" by simp
    moreover from 3(3) first_rejection_None [OF None] have "t' = t0" by auto
    ultimately show ?thesis by simp
  next
    case (Some best)
    obtain t1 e1 where best: "best = (t1, e1)" by (cases best)
    have rest: "(t', Inl e') \<in> set rest \<Longrightarrow> t1 \<le> t'"
      using 3(1) Some best by blast
    show ?thesis
    proof (cases "t1 < t0")
      case True
      with 3(2) Some best have "t = t1" by simp
      with True 3(3) rest show ?thesis by auto
    next
      case False
      with 3(2) Some best have "t = t0" by simp
      with False 3(3) rest show ?thesis by auto
    qed
  qed
qed

lemma Promise_all_rejection:
  assumes "Promise_all settled = Inl e"
  shows "\<exists>t. (t, Inl e) \<in> set settled \<and> (\<forall>t' e'. (t', Inl e') \<in> set settled \<longrightarrow> t \<le> t')"
proof (cases "first_rejection settled")
  case None
  have "\<forall>x \<in> set (map snd settled). \<exists>v. x = Inr v"
  proof
    fix x assume "x \<in> set (map snd settled)"
    then obtain t where "(t, x) \<in> set settled" by auto
    with first_rejection_None [OF None] show "\<exists>v. x = Inr v"
      by (cases x) auto
  qed
  then have "\<exists>vs. collect (map snd settled) = Inr vs"
    by (induction settled) auto
  with assms None show ?thesis
    by (simp add: Promise_all_def)
next
  case (Some te)
  obtain t e0 where te: "te = (t, e0)" by (cases te)
  with assms Some have "e0 = e"
    by (simp add: Promise_all_def)
  with Some te first_rejection_member first_rejection_earliest show ?thesis
    by blast
qed

lemma send_transfers_status:
  "status (finish_try (send_transfers env valid s0)) = Some (transfer_status env valid)"
  by (simp add: send_transfers_def transfer_status_def the_request_def Let_def finish_try_def
      setStatus_def called_def console_error_def split: sum.splits)






text \<open>
  A run of \<open>executeTransfers\<close> that passes its guards is the \<open>try\<close> block run from a
  state with the same build calls and quote requests.
\<close>

lemma privy_run:
  assumes "orchestrator s \<noteq> None" "meeClient s \<noteq> None" "wallet h \<noteq> None"
    and "validRecipients (recipients s) = Inr valid" "valid \<noteq> []"
  shows "\<exists>s0. privy_executeTransfers env h s = Inr (finish_try (send_transfers env valid s0))
           \<and> quote_requests s0 = quote_requests s \<and> build_calls s0 = build_calls s"
proof -
  from assms(1-3) have g: "(orchestrator s = None \<or> meeClient s = None \<or> wallet h = None) = False"
    by simp
  from assms(5) have l: "(length valid = 0) = False"
    by simp
  let ?s2 = "called (SwitchChain base_id) (setStatus ''Preparing transaction...'' s)"
  let ?s3 = "case switchChain env of
               Inl e \<Rightarrow> console_log [Txt ''[Privy] Already on Base or switch not needed''] ?s2
             | Inr _ \<Rightarrow> ?s2"
  have "privy_executeTransfers env h s = Inr (finish_try (send_transfers env valid ?s3))"
    by (simp only: privy_executeTransfers_def g l assms(4) if_False sum.case Let_def)
  moreover have "quote_requests ?s3 = quote_requests s" "build_calls ?s3 = build_calls s"
    by (simp_all add: quote_requests_def build_calls_def called_def setStatus_def console_log_def
        split: sum.splits)
  ultimately show ?thesis
    by blast
qed

lemma para_run:
  assumes "orchestrator s \<noteq> None" "meeClient s \<noteq> None" "\<not> falsy (wallet h)"
    and "validRecipients (recipients s) = Inr valid" "valid \<noteq> []"
  shows "\<exists>s0. para_executeTransfers env h s = Inr (finish_try (send_transfers env valid s0))
           \<and> quote_requests s0 = quote_requests s \<and> build_calls s0 = build_calls s"
proof -
  from assms(1-3) have g: "(orchestrator s = None \<or> meeClient s = None \<or> falsy (wallet h)) = False"
    by simp
  from assms(5) have l: "(length valid = 0) = False"
    by simp
  let ?s1 = "setStatus ''Preparing transaction...'' s"
  have "para_executeTransfers env h s = Inr (finish_try (send_transfers env valid ?s1))"
    by (simp only: para_executeTransfers_def g l assms(4) if_False sum.case Let_def)
  moreover have "quote_requests ?s1 = quote_requests s" "build_calls ?s1 = build_calls s"
    by (simp_all add: quote_requests_def build_calls_def setStatus_def)
  ultimately show ?thesis
    by blast
qed

lemma dynamic_run:
  assumes "orchestrator s \<noteq> None" "meeClient s \<noteq> None" "wallet h \<noteq> None"
    and "validRecipients (recipients s) = Inr valid" "valid \<noteq> []"
  shows "\<exists>s0. dynamic_executeTransfers env h s = Inr (finish_try (send_transfers env valid s0))
           \<and> quote_requests s0 = quote_requests s \<and> build_calls s0 = build_calls s"
proof -
  from assms(1-3) have g: "(orchestrator s = None \<or> meeClient s = None \<or> wallet h = None) = False"
    by simp
  from assms(5) have l: "(length valid = 0) = False"
    by simp
  let ?s2 = "called (SwitchChain base_id) (setStatus ''Preparing transaction...'' s)"
  let ?s3 = "case switchChain env of
               Inl e \<Rightarrow>
                 console_log [Txt ''[Dynamic] Network switch skipped for transfer:'', Thrown e] ?s2
             | Inr _ \<Rightarrow> console_log [Txt ''[Dynamic] Switched to Base for transfer''] ?s2"
  have "dynamic_executeTransfers env h s = Inr (finish_try (send_transfers env valid ?s3))"
    by (simp only: dynamic_executeTransfers_def g l assms(4) if_False sum.case Let_def)
  moreover have "quote_requests ?s3 = quote_requests s" "build_calls ?s3 = build_calls s"
    by (simp_all add: quote_requests_def build_calls_def called_def setStatus_def console_log_def
        split: sum.splits)
  ultimately show ?thesis
    by blast
qed

lemma page_run:
  assumes "orchestrator s \<noteq> None" "meeClient s \<noteq> None" "wallet h = Some a" "a \<noteq> []"
    and "validRecipients (recipients s) = Inr valid" "valid \<noteq> []"
    and "run \<in> {privy_executeTransfers env h s, para_executeTransfers env h s,
                 dynamic_executeTransfers env h s}"
  shows "\<exists>s0. run = Inr (finish_try (send_transfers env valid s0))
           \<and> quote_requests s0 = quote_requests s \<and> build_calls s0 = build_calls s"
proof -
  from assms(3,4) have w: "wallet h \<noteq> None" "\<not> falsy (wallet h)"
    by (simp_all add: falsy_def)
  from assms(7) consider "run = privy_executeTransfers env h s"
    | "run = para_executeTransfers env h s" | "run = dynamic_executeTransfers env h s"
    by auto
  then show ?thesis
  proof cases
    case 1
    with privy_run [OF assms(1,2) w(1) assms(5,6)] show ?thesis by simp
  next
    case 2
    with para_run [OF assms(1,2) w(2) assms(5,6)] show ?thesis by simp
  next
    case 3
    with dynamic_run [OF assms(1,2) w(1) assms(5,6)] show ?thesis by simp
  qed
qed





lemma ready_valid:
  "validRecipients (recipients ready_page) = Inr [''0xabc1'', ''0xabc2'']"
proof -
  have "recipients ready_page = map Str [''0xabc1'', ''0xabc2'']"
    by (simp add: ready_page_def)
  then show ?thesis
    by (simp only: validRecipients_strings) (simp add: is_whitespace_def)
qed




subsection \<open>Errors and the status text\<close>

lemma validRecipients_throws: "validRecipients rs = Inl e \<Longrightarrow> e = trim_type_error"
  by (induction rs rule: validRecipients.induct) (auto split: sum.splits)

lemma transfers_status:
  assumes "orchestrator s \<noteq> None" "meeClient s \<noteq> None" "wallet h = Some a" "a \<noteq> []"
    and "validRecipients (recipients s) = Inr valid" "valid \<noteq> []"
    and "run \<in> {privy_executeTransfers env h s, para_executeTransfers env h s,
                 dynamic_executeTransfers env h s}"
  shows "\<exists>s'. run = Inr s' \<and> status s' = Some (transfer_status env valid)"
  using page_run [OF assms] by (auto simp: send_transfers_status)

lemma not_initialized_guard:
  assumes "orchestrator s = None \<or> meeClient s = None \<or> wallet h = None"
  shows "privy_executeTransfers env h s
           = Inr (s\<lparr>status := Some ''Error: MEE client not initialized. Please wait...''\<rparr>)"
    and "para_executeTransfers env h s
           = Inr (s\<lparr>status := Some ''Error: MEE client not initialized. Please wait...''\<rparr>)"
    and "dynamic_executeTransfers env h s
           = Inr (s\<lparr>status := Some ''Error: MEE client not initialized. Please wait...''\<rparr>)"
proof -
  from assms have p: "(orchestrator s = None \<or> meeClient s = None \<or> wallet h = None) = True"
    by simp
  from assms have a: "(orchestrator s = None \<or> meeClient s = None \<or> falsy (wallet h)) = True"
    by (auto simp: falsy_def)
  show "privy_executeTransfers env h s
           = Inr (s\<lparr>status := Some ''Error: MEE client not initialized. Please wait...''\<rparr>)"
    by (simp only: privy_executeTransfers_def p if_True setStatus_def not_initialized_def)
  show "para_executeTransfers env h s
           = Inr (s\<lparr>status := Some ''Error: MEE client not initialized. Please wait...''\<rparr>)"
    by (simp only: para_executeTransfers_def a if_True setStatus_def not_initialized_def)
  show "dynamic_executeTransfers env h s
           = Inr (s\<lparr>status := Some ''Error: MEE client not initialized. Please wait...''\<rparr>)"
    by (simp only: dynamic_executeTransfers_def p if_True setStatus_def not_initialized_def)
qed

lemma no_recipient_guard:
  assumes "orchestrator s \<noteq> None" "meeClient s \<noteq> None" "wallet h = Some a" "a \<noteq> []"
    and "validRecipients (recipients s) = Inr []"
    and "run \<in> {privy_executeTransfers env h s, para_executeTransfers env h s,
                 dynamic_executeTransfers env h s}"
  shows "run = Inr (s\<lparr>status := Some ''Error: Please add at least one recipient.''\<rparr>)"
proof -
  from assms(1-4) have p: "(orchestrator s = None \<or> meeClient s = None \<or> wallet h = None) = False"
    and a: "(orchestrator s = None \<or> meeClient s = None \<or> falsy (wallet h)) = False"
    by (simp_all add: falsy_def)
  have l: "(length ([] :: string list) = 0) = True"
    by simp
  have "privy_executeTransfers env h s
          = Inr (s\<lparr>status := Some ''Error: Please add at least one recipient.''\<rparr>)"
    by (simp only: privy_executeTransfers_def p assms(5) l if_True if_False sum.case
        setStatus_def no_recipient_def)
  moreover have "para_executeTransfers env h s
          = Inr (s\<lparr>status := Some ''Error: Please add at least one recipient.''\<rparr>)"
    by (simp only: para_executeTransfers_def a assms(5) l if_True if_False sum.case
        setStatus_def no_recipient_def)
  moreover have "dynamic_executeTransfers env h s
          = Inr (s\<lparr>status := Some ''Error: Please add at least one recipient.''\<rparr>)"
    by (simp only: dynamic_executeTransfers_def p assms(5) l if_True if_False sum.case
        setStatus_def no_recipient_def)
  ultimately show ?thesis
    using assms(6) by auto
qed

lemma para_initMee_status:
  assumes "wallet h = Some a" "a \<noteq> []" "isConnected h" "meeClient s = None"
  shows "status (para_initMee env h s)
           = (case createParaAccount env of
                Inl err \<Rightarrow> Some (''Error initializing MEE: '' @ err_text err)
              | Inr viemParaAccount \<Rightarrow>
                  (case toMultichainNexusAccount env viemParaAccount of
                     Inl err \<Rightarrow> Some (''Error initializing MEE: '' @ err_text err)
                   | Inr multiAccount \<Rightarrow>
                       (case createMeeClient env multiAccount of
                          Inl err \<Rightarrow> Some (''Error initializing MEE: '' @ err_text err)
                        | Inr mee \<Rightarrow> status s)))"
  using assms
  by (simp add: para_initMee_def para_init_try_def create_account_and_client_def Let_def
      setStatus_def console_error_def console_log_def called_def split: sum.splits)

lemma dynamic_initMee_status:
  assumes "wallet h = Some a" "a \<noteq> []" "isEthereumWallet h" "meeClient s = None"
  shows "status (dynamic_initMee env h s)
           = (case getTransport env of
                Inl err \<Rightarrow> Some (''Error initializing MEE: '' @ err_text err)
              | Inr walletClient \<Rightarrow>
                  (case getAddress env a of
                     Inl err \<Rightarrow> Some (''Error initializing MEE: '' @ err_text err)
                   | Inr address \<Rightarrow>
                       (case toMultichainNexusAccount env (DynamicSigner address) of
                          Inl err \<Rightarrow> Some (''Error initializing MEE: '' @ err_text err)
                        | Inr multiAccount \<Rightarrow>
                            (case createMeeClient env multiAccount of
                               Inl err \<Rightarrow> Some (''Error initializing MEE: '' @ err_text err)
                             | Inr mee \<Rightarrow> status s))))"
  using assms
  by (simp add: dynamic_initMee_def dynamic_init_try_def create_account_and_client_def Let_def
      setStatus_def console_error_def console_log_def called_def split: sum.splits)

lemma fetchBalance_status: "status (fetchBalance toBigInt h outcome s) = status s"
  by (simp add: fetchBalance_def Let_def called_def console_error_def
      split: option.splits fetch_outcome.splits sum.splits)

text \<open>
  C8, as the pages have it. A run of \<open>executeTransfers\<close> whose filter of the
  recipients does not throw ends with a status that is determined as follows. With
  the account, the client or the wallet missing it is
  \<open>Error: MEE client not initialized. Please wait...\<close>; with no recipient that is not
  blank it is \<open>Error: Please add at least one recipient.\<close>; otherwise it is \<open>Error: \<close>
  followed by the \<open>message\<close> of the first rejection among the building of the
  instructions, the quote request, the execution, the link and the wait for the
  receipt, and \<open>Transaction confirmed!\<close> when none is rejected. The outcome of the
  chain switch that the Privy and Dynamic pages try first has no part in it: its
  rejection is logged only. On the Para and on the Dynamic page, the first rejection
  among the awaited calls of \<open>initMee\<close> after the chain switch gives the status
  \<open>Error initializing MEE: \<close> followed by the text of the error, and with none the
  status is left as it was. A run of \<open>fetchBalance\<close> never changes the status.
\<close>

theorem handled_errors_reach_the_status:
  "(orchestrator s \<noteq> None \<and> meeClient s \<noteq> None \<and> wallet h = Some a \<and> a \<noteq> []
      \<and> validRecipients (recipients s) = Inr valid \<and> valid \<noteq> []
      \<and> run \<in> {privy_executeTransfers env h s, para_executeTransfers env h s,
                  dynamic_executeTransfers env h s}
     \<longrightarrow> (\<exists>s'. run = Inr s'
            \<and> status s'
                = Some (case Promise_all (map (build_transfer env) valid) of
                          Inl err \<Rightarrow> ''Error: '' @ err_message err
                        | Inr transfers \<Rightarrow>
                            (case getFusionQuote env (the_request transfers) of
                               Inl err \<Rightarrow> ''Error: '' @ err_message err
                             | Inr fusionQuote \<Rightarrow>
                                 (case executeFusionQuote env fusionQuote of
                                    Inl err \<Rightarrow> ''Error: '' @ err_message err
                                  | Inr hash \<Rightarrow>
                                      (case getMeeScanLink env hash of
                                         Inl err \<Rightarrow> ''Error: '' @ err_message err
                                       | Inr link \<Rightarrow>
                                           (case waitForSupertransactionReceipt env hash of
                                              Inl err \<Rightarrow> ''Error: '' @ err_message err
                                            | Inr done \<Rightarrow> ''Transaction confirmed!'')))))))
   \<and> (orchestrator s = None \<or> meeClient s = None \<or> wallet h = None
     \<longrightarrow> privy_executeTransfers env h s
           = Inr (s\<lparr>status := Some ''Error: MEE client not initialized. Please wait...''\<rparr>)
         \<and> para_executeTransfers env h s
           = Inr (s\<lparr>status := Some ''Error: MEE client not initialized. Please wait...''\<rparr>)
         \<and> dynamic_executeTransfers env h s
           = Inr (s\<lparr>status := Some ''Error: MEE client not initialized. Please wait...''\<rparr>))
   \<and> (orchestrator s \<noteq> None \<and> meeClient s \<noteq> None \<and> wallet h = Some a \<and> a \<noteq> []
      \<and> validRecipients (recipients s) = Inr []
      \<and> run \<in> {privy_executeTransfers env h s, para_executeTransfers env h s,
                  dynamic_executeTransfers env h s}
     \<longrightarrow> run = Inr (s\<lparr>status := Some ''Error: Please add at least one recipient.''\<rparr>))
   \<and> (wallet h = Some a \<and> a \<noteq> [] \<and> isConnected h \<and> meeClient s = None
     \<longrightarrow> status (para_initMee env h s)
           = (case createParaAccount env of
                Inl err \<Rightarrow> Some (''Error initializing MEE: '' @ err_text err)
              | Inr viemParaAccount \<Rightarrow>
                  (case toMultichainNexusAccount env viemParaAccount of
                     Inl err \<Rightarrow> Some (''Error initializing MEE: '' @ err_text err)
                   | Inr multiAccount \<Rightarrow>
                       (case createMeeClient env multiAccount of
                          Inl err \<Rightarrow> Some (''Error initializing MEE: '' @ err_text err)
                        | Inr mee \<Rightarrow> status s))))
   \<and> (wallet h = Some a \<and> a \<noteq> [] \<and> isEthereumWallet h \<and> meeClient s = None
     \<longrightarrow> status (dynamic_initMee env h s)
           = (case getTransport env of
                Inl err \<Rightarrow> Some (''Error initializing MEE: '' @ err_text err)
              | Inr walletClient \<Rightarrow>
                  (case getAddress env a of
                     Inl err \<Rightarrow> Some (''Error initializing MEE: '' @ err_text err)
                   | Inr address \<Rightarrow>
                       (case toMultichainNexusAccount env (DynamicSigner address) of
                          Inl err \<Rightarrow> Some (''Error initializing MEE: '' @ err_text err)
                        | Inr multiAccount \<Rightarrow>
                            (case createMeeClient env multiAccount of
                               Inl err \<Rightarrow> Some (''Error initializing MEE: '' @ err_text err)
                             | Inr mee \<Rightarrow> status s)))))
   \<and> status (fetchBalance toBigInt h outcome s) = status s"
proof (intro conjI impI)
  assume "orchestrator s \<noteq> None \<and> meeClient s \<noteq> None \<and> wallet h = Some a \<and> a \<noteq> []
      \<and> validRecipients (recipients s) = Inr valid \<and> valid \<noteq> []
      \<and> run \<in> {privy_executeTransfers env h s, para_executeTransfers env h s,
                  dynamic_executeTransfers env h s}"
  then have "\<exists>s'. run = Inr s' \<and> status s' = Some (transfer_status env valid)"
    using transfers_status by blast
  then show "\<exists>s'. run = Inr s'
            \<and> status s'
                = Some (case Promise_all (map (build_transfer env) valid) of
                          Inl err \<Rightarrow> ''Error: '' @ err_message err
                        | Inr transfers \<Rightarrow>
                            (case getFusionQuote env (the_request transfers) of
                               Inl err \<Rightarrow> ''Error: '' @ err_message err
                             | Inr fusionQuote \<Rightarrow>
                                 (case executeFusionQuote env fusionQuote of
                                    Inl err \<Rightarrow> ''Error: '' @ err_message err
                                  | Inr hash \<Rightarrow>
                                      (case getMeeScanLink env hash of
                                         Inl err \<Rightarrow> ''Error: '' @ err_message err
                                       | Inr link \<Rightarrow>
                                           (case waitForSupertransactionReceipt env hash of
                                              Inl err \<Rightarrow> ''Error: '' @ err_message err
                                            | Inr done \<Rightarrow> ''Transaction confirmed!'')))))"
    by (simp only: transfer_status_def)
next
  assume g: "orchestrator s = None \<or> meeClient s = None \<or> wallet h = None"
  show "privy_executeTransfers env h s
           = Inr (s\<lparr>status := Some ''Error: MEE client not initialized. Please wait...''\<rparr>)"
    by (rule not_initialized_guard(1) [OF g])
  show "para_executeTransfers env h s
           = Inr (s\<lparr>status := Some ''Error: MEE client not initialized. Please wait...''\<rparr>)"
    by (rule not_initialized_guard(2) [OF g])
  show "dynamic_executeTransfers env h s
           = Inr (s\<lparr>status := Some ''Error: MEE client not initialized. Please wait...''\<rparr>)"
    by (rule not_initialized_guard(3) [OF g])
next
  assume "orchestrator s \<noteq> None \<and> meeClient s \<noteq> None \<and> wallet h = Some a \<and> a \<noteq> []
      \<and> validRecipients (recipients s) = Inr []
      \<and> run \<in> {privy_executeTransfers env h s, para_executeTransfers env h s,
                  dynamic_executeTransfers env h s}"
  then show "run = Inr (s\<lparr>status := Some ''Error: Please add at least one recipient.''\<rparr>)"
    using no_recipient_guard by blast
next
  assume "wallet h = Some a \<and> a \<noteq> [] \<and> isConnected h \<and> meeClient s = None"
  then show "status (para_initMee env h s)
           = (case createParaAccount env of
                Inl err \<Rightarrow> Some (''Error initializing MEE: '' @ err_text err)
              | Inr viemParaAccount \<Rightarrow>
                  (case toMultichainNexusAccount env viemParaAccount of
                     Inl err \<Rightarrow> Some (''Error initializing MEE: '' @ err_text err)
                   | Inr multiAccount \<Rightarrow>
                       (case createMeeClient env multiAccount of
                          Inl err \<Rightarrow> Some (''Error initializing MEE: '' @ err_text err)
                        | Inr mee \<Rightarrow> status s)))"
    using para_initMee_status by blast
next
  assume "wallet h = Some a \<and> a \<noteq> [] \<and> isEthereumWallet h \<and> meeClient s = None"
  then show "status (dynamic_initMee env h s)
           = (case getTransport env of
                Inl err \<Rightarrow> Some (''Error initializing MEE: '' @ err_text err)
              | Inr walletClient \<Rightarrow>
                  (case getAddress env a of
                     Inl err \<Rightarrow> Some (''Error initializing MEE: '' @ err_text err)
                   | Inr address \<Rightarrow>
                       (case toMultichainNexusAccount env (DynamicSigner address) of
                          Inl err \<Rightarrow> Some (''Error initializing MEE: '' @ err_text err)
                        | Inr multiAccount \<Rightarrow>
                            (case createMeeClient env multiAccount of
                               Inl err \<Rightarrow> Some (''Error initializing MEE: '' @ err_text err)
                             | Inr mee \<Rightarrow> status s))))"
    using dynamic_initMee_status by blast
next
  show "status (fetchBalance toBigInt h outcome s) = status s"
    by (rule fetchBalance_status)
qed

lemma example_builds:
  "Promise_all (map (build_transfer declined) [''0xabc1'', ''0xabc2'']) = Inr [Instruction 6, Instruction 6]"
  "Promise_all (map (build_transfer switch_refused) [''0xabc1'', ''0xabc2'']) = Inr [Instruction 6, Instruction 6]"
  "Promise_all (map (build_transfer unreachable) [''0xabc1'', ''0xabc2'']) = Inr [Instruction 0, Instruction 0]"
  by (rule Promise_all_values,
      simp add: build_transfer_def declined_def switch_refused_def answering_def unreachable_def
        transfer_call_def)+

lemma example_statuses:
  "transfer_status declined [''0xabc1'', ''0xabc2''] = ''Error: User rejected the request.''"
  "transfer_status switch_refused [''0xabc1'', ''0xabc2''] = ''Transaction confirmed!''"
  "transfer_status unreachable [''0xabc1'', ''0xabc2''] = ''Error: Failed to fetch''"
  by (simp only: transfer_status_def example_builds sum.case,
      simp add: declined_def switch_refused_def answering_def unreachable_def err_message_def)+

lemma blank_valid: "validRecipients (recipients (ready_page\<lparr>recipients := [Str '' '']\<rparr>)) = Inr []"
  by (simp add: trim_def is_whitespace_def)

text \<open>
  A declined signature after a refused chain switch, on the Privy and on the Dynamic
  page; the network down on the Para page; a refused chain switch alone; the two
  guards; the two initializations and a balance fetch with the network down.
\<close>

theorem failed_initialization_and_transfer_witness:
  "map_sum id status (privy_executeTransfers declined connected ready_page)
     = Inr (Some ''Error: User rejected the request.'')
   \<and> map_sum id status (dynamic_executeTransfers declined connected ready_page)
     = Inr (Some ''Error: User rejected the request.'')
   \<and> map_sum id status (para_executeTransfers unreachable connected ready_page)
     = Inr (Some ''Error: Failed to fetch'')
   \<and> map_sum id status (privy_executeTransfers switch_refused connected ready_page)
     = Inr (Some ''Transaction confirmed!'')
   \<and> map_sum id status (dynamic_executeTransfers answering connected initial_page)
     = Inr (Some ''Error: MEE client not initialized. Please wait...'')
   \<and> map_sum id status
       (para_executeTransfers answering connected (ready_page\<lparr>recipients := [Str '' '']\<rparr>))
     = Inr (Some ''Error: Please add at least one recipient.'')
   \<and> status (para_initMee unreachable connected initial_page)
       = Some ''Error initializing MEE: Failed to fetch''
   \<and> status (dynamic_initMee unreachable connected initial_page)
       = Some ''Error initializing MEE: Failed to fetch''
   \<and> status (fetchBalance (\<lambda>t. Inr 0) connected (Rejected (ErrorObj ''Failed to fetch'')) initial_page)
       = None"
proof -
  note T = handled_errors_reach_the_status
  have g: "orchestrator ready_page \<noteq> None" "meeClient ready_page \<noteq> None"
    "wallet connected = Some ''0xA''" "''0xA'' \<noteq> []"
    "[''0xabc1'', ''0xabc2''] \<noteq> ([] :: string list)"
    by (simp_all add: ready_page_def initial_page_def connected_def)
  have b: "orchestrator (ready_page\<lparr>recipients := [Str '' '']\<rparr>) \<noteq> None"
    "meeClient (ready_page\<lparr>recipients := [Str '' '']\<rparr>) \<noteq> None"
    by (simp_all add: ready_page_def initial_page_def)
  have i: "status initial_page = None" "meeClient initial_page = None"
    "orchestrator initial_page = None"
    by (simp_all add: initial_page_def)
  have c: "isConnected connected" "isEthereumWallet connected"
    by (simp_all add: connected_def)
  have 1: "map_sum id status (privy_executeTransfers declined connected ready_page)
     = Inr (Some ''Error: User rejected the request.'')"
    using T [where env = declined and s = ready_page and h = connected and a = "''0xA''"
        and valid = "[''0xabc1'', ''0xabc2'']"
        and run = "privy_executeTransfers declined connected ready_page", THEN conjunct1]
      g ready_valid
    unfolding transfer_status_def [symmetric] by (auto simp: example_statuses)
  have 2: "map_sum id status (dynamic_executeTransfers declined connected ready_page)
     = Inr (Some ''Error: User rejected the request.'')"
    using T [where env = declined and s = ready_page and h = connected and a = "''0xA''"
        and valid = "[''0xabc1'', ''0xabc2'']"
        and run = "dynamic_executeTransfers declined connected ready_page", THEN conjunct1]
      g ready_valid
    unfolding transfer_status_def [symmetric] by (auto simp: example_statuses)
  have 3: "map_sum id status (para_executeTransfers unreachable connected ready_page)
     = Inr (Some ''Error: Failed to fetch'')"
    using T [where env = unreachable and s = ready_page and h = connected and a = "''0xA''"
        and valid = "[''0xabc1'', ''0xabc2'']"
        and run = "para_executeTransfers unreachable connected ready_page", THEN conjunct1]
      g ready_valid
    unfolding transfer_status_def [symmetric] by (auto simp: example_statuses)
  have 4: "map_sum id status (privy_executeTransfers switch_refused connected ready_page)
     = Inr (Some ''Transaction confirmed!'')"
    using T [where env = switch_refused and s = ready_page and h = connected and a = "''0xA''"
        and valid = "[''0xabc1'', ''0xabc2'']"
        and run = "privy_executeTransfers switch_refused connected ready_page", THEN conjunct1]
      g ready_valid
    unfolding transfer_status_def [symmetric] by (auto simp: example_statuses)
  have 5: "map_sum id status (dynamic_executeTransfers answering connected initial_page)
     = Inr (Some ''Error: MEE client not initialized. Please wait...'')"
    using T [where env = answering and s = initial_page and h = connected,
        THEN conjunct2, THEN conjunct1] i
    by simp
  have 6: "map_sum id status
       (para_executeTransfers answering connected (ready_page\<lparr>recipients := [Str '' '']\<rparr>))
     = Inr (Some ''Error: Please add at least one recipient.'')"
    using T [where env = answering and s = "ready_page\<lparr>recipients := [Str '' '']\<rparr>"
        and h = connected and a = "''0xA''"
        and run = "para_executeTransfers answering connected (ready_page\<lparr>recipients := [Str '' '']\<rparr>)",
        THEN conjunct2, THEN conjunct2, THEN conjunct1] b g(3,4) blank_valid
    by simp
  have 7: "status (para_initMee unreachable connected initial_page)
       = Some ''Error initializing MEE: Failed to fetch''"
    using T [where env = unreachable and s = initial_page and h = connected and a = "''0xA''",
        THEN conjunct2, THEN conjunct2, THEN conjunct2, THEN conjunct1] g(3,4) c i
    by (simp add: unreachable_def err_text_def)
  have 8: "status (dynamic_initMee unreachable connected initial_page)
       = Some ''Error initializing MEE: Failed to fetch''"
    using T [where env = unreachable and s = initial_page and h = connected and a = "''0xA''",
        THEN conjunct2, THEN conjunct2, THEN conjunct2, THEN conjunct2, THEN conjunct1] g(3,4) c i
    by (simp add: unreachable_def err_text_def)
  have 9: "status (fetchBalance (\<lambda>t. Inr 0) connected (Rejected (ErrorObj ''Failed to fetch'')) initial_page)
       = None"
    using T [where s = initial_page and h = connected and toBigInt = "\<lambda>t. Inr 0"
        and outcome = "Rejected (ErrorObj ''Failed to fetch'')",
        THEN conjunct2, THEN conjunct2, THEN conjunct2, THEN conjunct2, THEN conjunct2] i
    by simp
  from 1 2 3 4 5 6 7 8 9 show ?thesis
    by (intro conjI)
qed

text \<open>
  C8 as stated fails: a balance fetch that is rejected on a fresh page writes one
  entry to the console, and the status, which was not set, is still not set.
\<close>

theorem failed_balance_fetch_only_logged:
  "status initial_page = None
   \<and> status (fetchBalance (\<lambda>t. Inr 0) connected (Rejected (ErrorObj ''Failed to fetch'')) initial_page)
       = None
   \<and> console (fetchBalance (\<lambda>t. Inr 0) connected (Rejected (ErrorObj ''Failed to fetch'')) initial_page)
       = [ConsoleError [Txt ''Failed to fetch balance:'', Thrown (ErrorObj ''Failed to fetch'')]]
   \<and> balance (fetchBalance (\<lambda>t. Inr 0) connected (Rejected (ErrorObj ''Failed to fetch'')) initial_page)
       = None"
  by (simp add: fetchBalance_def connected_def initial_page_def Let_def called_def
      console_error_def)

end
